theory Spec2Isabelle
  imports Main "HOL-Library.Multiset"
begin

section \<open>JavaScript values\<close>

text \<open>
  A JavaScript string is modelled by the bytes of its UTF-8 encoding, so the two
  non-ASCII signs of the conflict messages are spelled out as bytes. A thrown value is
  either an \<open>Error\<close> object with its message or some other value; the handlers of the
  program only ever ask \<open>error instanceof Error ? error.message : 'Unknown error'\<close>.
  Numbers are modelled as integers (identifiers are \<open>serial\<close> columns), and a
  \<open>Date\<close> is its time value in milliseconds, or the invalid date that
  \<open>new Date(text)\<close> gives for a text it cannot read.
\<close>

datatype js_error = Error string | Thrown

definition error_message :: "js_error \<Rightarrow> string" where
  "error_message err = (case err of Error m \<Rightarrow> m | Thrown \<Rightarrow> ''Unknown error'')"

datatype date = Date int | InvalidDate

definition dq :: string where
  "dq = [CHR 0x22]"

definition nl :: string where
  "nl = [CHR 0x0A]"

definition warning_sign :: string where
  "warning_sign = [CHR 0xE2, CHR 0x9A, CHR 0xA0, CHR 0xEF, CHR 0xB8, CHR 0x8F]"

definition check_mark :: string where
  "check_mark = [CHR 0xE2, CHR 0x9C, CHR 0x93]"

fun show_nat :: "nat \<Rightarrow> string" where
  "show_nat n =
     (if n < 10 then [''0123456789'' ! n]
      else show_nat (n div 10) @ [''0123456789'' ! (n mod 10)])"

definition show_int :: "int \<Rightarrow> string" where
  "show_int i = (if i < 0 then ''-'' @ show_nat (nat (- i)) else show_nat (nat i))"

text \<open>Truthiness, as \<open>if (x)\<close> tests it: \<open>undefined\<close>, \<open>null\<close>, \<open>0\<close> and the
  empty string are falsy.\<close>

definition truthy_number :: "int option \<Rightarrow> bool" where
  "truthy_number x = (case x of None \<Rightarrow> False | Some n \<Rightarrow> n \<noteq> 0)"

definition truthy_string :: "string option \<Rightarrow> bool" where
  "truthy_string x = (case x of None \<Rightarrow> False | Some s \<Rightarrow> s \<noteq> [])"


section \<open>The stored events\<close>

text \<open>The \<open>events\<close> table of the schema; a stored timestamp is always a valid instant.\<close>

record events_row =
  events_id :: int
  events_title :: string
  events_description :: "string option"
  events_startTime :: int
  events_endTime :: int
  events_location :: "string option"
  events_eventTypeId :: int
  events_isAllDay :: bool
  events_isRecurring :: bool
  events_recurrenceRule :: "string option"
  events_createdAt :: int
  events_updatedAt :: int

text \<open>
  Modelled from the spec: the storage collaborator behind \<open>db\<close> (the connection module is
  not among the sources). It holds the rows of \<open>events\<close>. The query has no
  \<open>ORDER BY\<close> and the specification gives no ordering guarantee, so at each read the
  storage itself decides in which order it returns the rows that satisfy the condition, or
  that the read fails: \<open>reads\<close> lists what it does at the reads to come, one entry for
  each read, and a read uses up its entry; once the list is used up, a read returns the
  rows in the stored order. A read leaves the stored rows as they are.
\<close>

datatype read = Returns nat | Fails js_error

text \<open>
  The orders of a list of rows, numbered: each row is put at a position that the number
  chooses among the rows after it. Number 0 is the order of the list itself.
\<close>

fun row_order :: "nat \<Rightarrow> 'a list \<Rightarrow> 'a list" where
  "row_order k [] = []"
| "row_order k (x # xs) =
     (let ys = row_order (k div Suc (length xs)) xs; i = k mod Suc (length xs)
      in take i ys @ x # drop i ys)"

record storage =
  events :: "events_row list"
  reads :: "read list"

definition select_events ::
  "(events_row \<Rightarrow> bool) \<Rightarrow> storage \<Rightarrow> (js_error + events_row list) \<times> storage" where
  "select_events cond db =
     (case reads db of
        [] \<Rightarrow> (Inr (filter cond (events db)), db)
      | Returns k # rest \<Rightarrow>
          (Inr (row_order k (filter cond (events db))), db\<lparr>reads := rest\<rparr>)
      | Fails err # rest \<Rightarrow> (Inl err, db\<lparr>reads := rest\<rparr>))"

text \<open>The comparison operators of the query builder, on a column of \<open>events\<close>.\<close>

definition gte :: "(events_row \<Rightarrow> int) \<Rightarrow> int \<Rightarrow> events_row \<Rightarrow> bool" where
  "gte col v r = (col r \<ge> v)"

definition lte :: "(events_row \<Rightarrow> int) \<Rightarrow> int \<Rightarrow> events_row \<Rightarrow> bool" where
  "lte col v r = (col r \<le> v)"

definition ne :: "(events_row \<Rightarrow> int) \<Rightarrow> int \<Rightarrow> events_row \<Rightarrow> bool" where
  "ne col v r = (col r \<noteq> v)"

definition and_conditions :: "(events_row \<Rightarrow> bool) list \<Rightarrow> events_row \<Rightarrow> bool" where
  "and_conditions conditions r = list_all (\<lambda>c. c r) conditions"

text \<open>A \<open>Date\<close> parameter is sent as \<open>toISOString()\<close>, which throws on the invalid date.\<close>

definition mapToDriverValue :: "date \<Rightarrow> js_error + int" where
  "mapToDriverValue d =
     (case d of Date t \<Rightarrow> Inr t | InvalidDate \<Rightarrow> Inl (Error ''Invalid time value''))"


section \<open>Conflict detection\<close>

record conflict_event =
  conflict_id :: int
  conflict_title :: string
  conflict_startTime :: int
  conflict_endTime :: int
  conflict_location :: "string option"

record ConflictRequest =
  startTime :: date
  endTime :: date
  excludeEventId :: "int option"

record ConflictState = ConflictRequest +
  conflicts :: "conflict_event list"
  hasConflicts :: bool
  message :: string

definition selected_columns :: "events_row \<Rightarrow> conflict_event" where
  "selected_columns r =
     \<lparr>conflict_id = events_id r, conflict_title = events_title r,
      conflict_startTime = events_startTime r, conflict_endTime = events_endTime r,
      conflict_location = events_location r\<rparr>"

text \<open>
  The conditions of the query. The comment above them in the source gives the strict form
  (\<open>event.start < newEvent.end AND event.end > newEvent.start\<close>); the query itself is
  built from \<open>gte\<close> and \<open>lte\<close>, and the condition on the identifier is added under
  \<open>if (excludeEventId)\<close>.
\<close>

definition conditions :: "int \<Rightarrow> int \<Rightarrow> int option \<Rightarrow> (events_row \<Rightarrow> bool) list" where
  "conditions s e excludeId =
     [gte events_endTime s, lte events_startTime e] @
     (case excludeId of
        None \<Rightarrow> []
      | Some x \<Rightarrow> if truthy_number (Some x) then [ne events_id x] else [])"

text \<open>The query of \<open>checkConflicts\<close>: the Interval Overlap Checker of the specification.\<close>

definition conflictingEvents ::
  "date \<Rightarrow> date \<Rightarrow> int option \<Rightarrow> storage \<Rightarrow> (js_error + conflict_event list) \<times> storage" where
  "conflictingEvents start end excludeId db =
     (case mapToDriverValue start of
        Inl err \<Rightarrow> (Inl err, db)
      | Inr s \<Rightarrow>
          (case mapToDriverValue end of
             Inl err \<Rightarrow> (Inl err, db)
           | Inr e \<Rightarrow>
               (case select_events (and_conditions (conditions s e excludeId)) db of
                  (Inl err, db') \<Rightarrow> (Inl err, db')
                | (Inr rows, db') \<Rightarrow> (Inr (map selected_columns rows), db'))))"

text \<open>
  The text of one conflicting event. \<open>toLocaleString\<close> depends on the locale and the time
  zone of the process and is a parameter.
\<close>

definition conflict_line :: "(int \<Rightarrow> string) \<Rightarrow> string \<Rightarrow> conflict_event \<Rightarrow> string" where
  \<open>conflict_line toLocaleString msg event =
     (let msg1 = msg @ ''  - "'' @ conflict_title event @ ''" ('' @
                   toLocaleString (conflict_startTime event) @ '' - '' @
                   toLocaleString (conflict_endTime event) @ '')'';
          msg2 = (case conflict_location event of
                    None \<Rightarrow> msg1
                  | Some l \<Rightarrow> if truthy_string (Some l) then msg1 @ '' at '' @ l else msg1)
      in msg2 @ nl)\<close>

definition render_message :: "(int \<Rightarrow> string) \<Rightarrow> conflict_event list \<Rightarrow> string" where
  "render_message toLocaleString conflictingEvents' =
     (if length conflictingEvents' > 0
      then foldl (conflict_line toLocaleString)
             (warning_sign @ ''  Found '' @ show_nat (length conflictingEvents') @
              '' conflicting event(s):'' @ nl)
             conflictingEvents'
      else check_mark @ '' No conflicts found'')"

text \<open>The node \<open>checkConflicts\<close>; the three fields it returns replace those of the state.\<close>

definition checkConflicts ::
  "(int \<Rightarrow> string) \<Rightarrow> ConflictState \<Rightarrow> storage \<Rightarrow> (js_error + ConflictState) \<times> storage" where
  "checkConflicts toLocaleString state db =
     (case conflictingEvents (startTime state) (endTime state) (excludeEventId state) db of
        (Inl err, db') \<Rightarrow> (Inl err, db')
      | (Inr found, db') \<Rightarrow>
          (Inr (state\<lparr>conflicts := found,
                      hasConflicts := (length found > 0),
                      message := render_message toLocaleString found\<rparr>), db'))"

text \<open>The compiled graph: from the start to the node \<open>check\<close>, and from there to the end.\<close>

definition conflictDetectionGraph_invoke ::
  "(int \<Rightarrow> string) \<Rightarrow> ConflictState \<Rightarrow> storage \<Rightarrow> (js_error + ConflictState) \<times> storage" where
  "conflictDetectionGraph_invoke toLocaleString input db = checkConflicts toLocaleString input db"

record DetectResult =
  result_hasConflicts :: bool
  result_conflicts :: "conflict_event list"
  result_message :: string

definition detectConflicts ::
  "(int \<Rightarrow> string) \<Rightarrow> date \<Rightarrow> date \<Rightarrow> int option \<Rightarrow> storage
     \<Rightarrow> (js_error + DetectResult) \<times> storage" where
  "detectConflicts toLocaleString start end excludeId db =
     (case conflictDetectionGraph_invoke toLocaleString
             \<lparr>startTime = start, endTime = end, excludeEventId = excludeId,
              conflicts = [], hasConflicts = False, message = []\<rparr> db of
        (Inl err, db') \<Rightarrow> (Inl err, db')
      | (Inr result, db') \<Rightarrow>
          (Inr \<lparr>result_hasConflicts = hasConflicts result,
                result_conflicts = conflicts result,
                result_message = message result\<rparr>, db'))"

section \<open>The other tables and the replies of the storage\<close>

record event_types_row =
  event_types_id :: int
  event_types_name :: string
  event_types_color :: string
  event_types_description :: "string option"
  event_types_createdAt :: int

record attendees_row =
  attendees_id :: int
  attendees_eventId :: int
  attendees_name :: string
  attendees_email :: "string option"
  attendees_status :: string
  attendees_responseAt :: "int option"
  attendees_notes :: "string option"
  attendees_createdAt :: int

record reminders_row =
  reminders_id :: int
  reminders_eventId :: int
  reminders_reminderTime :: int
  reminders_sent :: bool
  reminders_createdAt :: int

text \<open>
  Modelled from the spec: the create, read, update and delete operations of the storage
  collaborator are opaque to the core. What the storage answers to the queries of one
  tool call, rows or a failure that the query throws, is part of the environment of the
  call, one answer for each shape of result. The environment also holds the stored events
  that the conflict query reads, and the functions of the JavaScript runtime that depend on
  the locale: \<open>toLocaleString\<close>, the text of a date in a template, and \<open>new Date(text)\<close>.
\<close>

record tool_env =
  env_toLocaleString :: "int \<Rightarrow> string"
  env_dateToString :: "int \<Rightarrow> string"
  env_newDate :: "string \<Rightarrow> date"
  env_db :: storage
  reply_event_types :: "js_error + event_types_row list"
  reply_events :: "js_error + events_row list"
  reply_event_with_type :: "js_error + (events_row \<times> event_types_row option) list"
  reply_attendees :: "js_error + attendees_row list"
  reply_reminders :: "js_error + reminders_row list"
  reply_reminders_with_event :: "js_error + (reminders_row \<times> events_row option) list"
  reply_done :: "js_error + unit"


section \<open>Tools and their schemas\<close>

text \<open>The arguments of a tool call are a JSON object; integers stand for its numbers.\<close>

datatype jsval = JNull | JNum int | JStr string | JBool bool

datatype ztype = ZString | ZNumber | ZBoolean | ZEnum "string list"

fun has_type :: "ztype \<Rightarrow> jsval \<Rightarrow> bool" where
  "has_type ZString (JStr s) = True"
| "has_type ZNumber (JNum n) = True"
| "has_type ZBoolean (JBool b) = True"
| "has_type (ZEnum values) (JStr s) = List.member values s"
| "has_type t v = False"

text \<open>A field of a \<open>z.object\<close> schema: its name, its type, and whether it is \<open>.optional()\<close>.\<close>

definition field_ok :: "(string \<Rightarrow> jsval option) \<Rightarrow> string \<times> ztype \<times> bool \<Rightarrow> bool" where
  "field_ok args f =
     (case f of (name, t, optional) \<Rightarrow>
        (case args name of None \<Rightarrow> optional | Some v \<Rightarrow> has_type t v))"

definition matches :: "(string \<times> ztype \<times> bool) list \<Rightarrow> (string \<Rightarrow> jsval option) \<Rightarrow> bool" where
  "matches schema args = list_all (field_ok args) schema"

definition schema_error :: js_error where
  "schema_error = Error ''Received tool input did not match expected schema''"

definition z_string :: "(string \<Rightarrow> jsval option) \<Rightarrow> string \<Rightarrow> js_error + string" where
  "z_string args name = (case args name of Some (JStr s) \<Rightarrow> Inr s | _ \<Rightarrow> Inl schema_error)"

definition z_number :: "(string \<Rightarrow> jsval option) \<Rightarrow> string \<Rightarrow> js_error + int" where
  "z_number args name = (case args name of Some (JNum n) \<Rightarrow> Inr n | _ \<Rightarrow> Inl schema_error)"

definition z_number_optional :: "(string \<Rightarrow> jsval option) \<Rightarrow> string \<Rightarrow> js_error + int option" where
  "z_number_optional args name =
     (case args name of
        None \<Rightarrow> Inr None
      | Some (JNum n) \<Rightarrow> Inr (Some n)
      | _ \<Rightarrow> Inl schema_error)"

record tool =
  tool_name :: string
  tool_schema :: "(string \<times> ztype \<times> bool) list"
  tool_func :: "(string \<Rightarrow> jsval option) \<Rightarrow> tool_env \<Rightarrow> js_error + string"

text \<open>\<open>tool.invoke\<close>: the input is parsed against the schema, then the function runs.\<close>

definition tool_invoke :: "tool \<Rightarrow> (string \<Rightarrow> jsval option) \<Rightarrow> tool_env \<Rightarrow> js_error + string" where
  "tool_invoke t args env =
     (if matches (tool_schema t) args then tool_func t args env else Inl schema_error)"

text \<open>\<open>try { body } catch (error) { handler }\<close>\<close>

definition try_catch :: "js_error + 'a \<Rightarrow> (js_error \<Rightarrow> js_error + 'a) \<Rightarrow> js_error + 'a" where
  "try_catch body handler = (case body of Inl err \<Rightarrow> handler err | Inr v \<Rightarrow> Inr v)"

definition join :: "string \<Rightarrow> string list \<Rightarrow> string" where
  "join sep xs = (case xs of [] \<Rightarrow> [] | x # rest \<Rightarrow> foldl (\<lambda>acc y. acc @ sep @ y) x rest)"

definition show_bool :: "bool \<Rightarrow> string" where
  "show_bool b = (if b then ''true'' else ''false'')"


subsection \<open>The conflict detection tool\<close>

definition checkEventConflicts_func ::
  "tool_env \<Rightarrow> string \<Rightarrow> string \<Rightarrow> int option \<Rightarrow> js_error + string" where
  "checkEventConflicts_func env startTime' endTime' excludeEventId' =
     try_catch
       (case fst (detectConflicts (env_toLocaleString env)
                    (env_newDate env startTime') (env_newDate env endTime') excludeEventId'
                    (env_db env)) of
          Inl err \<Rightarrow> Inl err
        | Inr result \<Rightarrow> Inr (result_message result))
       (\<lambda>error. Inr (''Error checking conflicts: '' @ error_message error))"

definition checkEventConflicts :: tool where
  "checkEventConflicts =
     \<lparr>tool_name = ''check_event_conflicts'',
      tool_schema = [(''startTime'', ZString, False), (''endTime'', ZString, False),
                     (''excludeEventId'', ZNumber, True)],
      tool_func = (\<lambda>args env.
        case z_string args ''startTime'' of Inl err \<Rightarrow> Inl err | Inr startTime' \<Rightarrow>
        case z_string args ''endTime'' of Inl err \<Rightarrow> Inl err | Inr endTime' \<Rightarrow>
        case z_number_optional args ''excludeEventId'' of Inl err \<Rightarrow> Inl err | Inr excludeEventId' \<Rightarrow>
          checkEventConflicts_func env startTime' endTime' excludeEventId')\<rparr>"


text \<open>
  Two forms of the templates: \<open>x ? `...${x}...` : ''\<close> for a text that may be missing or
  empty, and \<open>x ?? 'N/A'\<close> for a text that may be missing.
\<close>

definition when_truthy :: "string option \<Rightarrow> (string \<Rightarrow> string) \<Rightarrow> string" where
  "when_truthy x f = (case x of None \<Rightarrow> [] | Some s \<Rightarrow> if truthy_string (Some s) then f s else [])"

definition nullish :: "string option \<Rightarrow> string \<Rightarrow> string" where
  "nullish x d = (case x of None \<Rightarrow> d | Some s \<Rightarrow> s)"


subsection \<open>Event type tools\<close>

definition createEventType_func :: "tool_env \<Rightarrow> js_error + string" where
  "createEventType_func env =
     try_catch
       (case reply_event_types env of
          Inl err \<Rightarrow> Inl err
        | Inr rows \<Rightarrow>
            (case rows of
               [] \<Rightarrow> Inr ''Error: Failed to create event type''
             | eventType # rest \<Rightarrow>
                 Inr (''Event type created: '' @ event_types_name eventType @ '' ('' @
                      event_types_color eventType @ '')'')))
       (\<lambda>error. Inr (''Error creating event type: '' @ error_message error))"

definition createEventType :: tool where
  "createEventType =
     \<lparr>tool_name = ''create_event_type'',
      tool_schema = [(''name'', ZString, False), (''color'', ZString, False),
                     (''description'', ZString, True)],
      tool_func = (\<lambda>args env. createEventType_func env)\<rparr>"

definition listEventTypes_func :: "tool_env \<Rightarrow> js_error + string" where
  "listEventTypes_func env =
     try_catch
       (case reply_event_types env of
          Inl err \<Rightarrow> Inl err
        | Inr types \<Rightarrow>
            if length types = 0 then Inr ''No event types found''
            else Inr (join nl (map (\<lambda>t.
                   show_int (event_types_id t) @ '': '' @ event_types_name t @ '' ('' @
                   event_types_color t @ '')'' @
                   when_truthy (event_types_description t) (\<lambda>d. '' - '' @ d)) types)))
       (\<lambda>error. Inr (''Error listing event types: '' @ error_message error))"

definition listEventTypes :: tool where
  "listEventTypes =
     \<lparr>tool_name = ''list_event_types'', tool_schema = [],
      tool_func = (\<lambda>args env. listEventTypes_func env)\<rparr>"


subsection \<open>Event tools\<close>

definition createEvent_func :: "tool_env \<Rightarrow> js_error + string" where
  "createEvent_func env =
     try_catch
       (case reply_events env of
          Inl err \<Rightarrow> Inl err
        | Inr rows \<Rightarrow>
            (case rows of
               [] \<Rightarrow> Inr ''Error: Failed to create event''
             | event # rest \<Rightarrow>
                 Inr (''Event created: '' @ dq @ events_title event @ dq @ '' on '' @
                      env_dateToString env (events_startTime event) @ '' (ID: '' @
                      show_int (events_id event) @ '')'')))
       (\<lambda>error. Inr (''Error creating event: '' @ error_message error))"

definition createEvent :: tool where
  "createEvent =
     \<lparr>tool_name = ''create_event'',
      tool_schema = [(''title'', ZString, False), (''description'', ZString, True),
                     (''startTime'', ZString, False), (''endTime'', ZString, False),
                     (''location'', ZString, True), (''eventTypeId'', ZNumber, False),
                     (''isAllDay'', ZBoolean, True), (''isRecurring'', ZBoolean, True),
                     (''recurrenceRule'', ZString, True)],
      tool_func = (\<lambda>args env. createEvent_func env)\<rparr>"

text \<open>
  A row of the join holds the event and, when there is one, its type; the test
  \<open>!event.events\<close> of the source is false for every row.
\<close>

definition getEvent_func :: "tool_env \<Rightarrow> js_error + string" where
  "getEvent_func env =
     try_catch
       (case reply_event_with_type env of
          Inl err \<Rightarrow> Inl err
        | Inr rows \<Rightarrow>
            (case rows of
               [] \<Rightarrow> Inr ''Event not found''
             | (event, event_type) # rest \<Rightarrow>
                 (case reply_attendees env of
                    Inl err \<Rightarrow> Inl err
                  | Inr eventAttendees \<Rightarrow>
                      (let attendeesList =
                             (if length eventAttendees > 0
                              then join nl (map (\<lambda>a.
                                     ''  - '' @ attendees_name a @
                                     when_truthy (attendees_email a) (\<lambda>e. '' ('' @ e @ '')'') @
                                     '' - '' @ attendees_status a) eventAttendees)
                              else ''  None'')
                       in Inr (''Event: '' @ events_title event @ nl @
                               ''Type: '' @ (case event_type of
                                               None \<Rightarrow> ''Unknown Type''
                                             | Some t \<Rightarrow> event_types_name t) @ nl @
                               ''Start: '' @ env_dateToString env (events_startTime event) @ nl @
                               ''End: '' @ env_dateToString env (events_endTime event) @ nl @
                               ''Location: '' @ nullish (events_location event) ''N/A'' @ nl @
                               ''All Day: '' @ show_bool (events_isAllDay event) @ nl @
                               ''Recurring: '' @ show_bool (events_isRecurring event) @ nl @
                               ''Description: '' @ nullish (events_description event) ''N/A'' @ nl @
                               ''Attendees:'' @ nl @ attendeesList)))))
       (\<lambda>error. Inr (''Error getting event: '' @ error_message error))"

definition getEvent :: tool where
  "getEvent =
     \<lparr>tool_name = ''get_event'', tool_schema = [(''eventId'', ZNumber, False)],
      tool_func = (\<lambda>args env. getEvent_func env)\<rparr>"

definition listEvents_func :: "tool_env \<Rightarrow> js_error + string" where
  "listEvents_func env =
     try_catch
       (case reply_events env of
          Inl err \<Rightarrow> Inl err
        | Inr result \<Rightarrow>
            if length result = 0 then Inr ''No events found''
            else Inr (join nl (map (\<lambda>e.
                   show_int (events_id e) @ '': '' @ events_title e @ '' | '' @
                   env_dateToString env (events_startTime e) @ '' to '' @
                   env_dateToString env (events_endTime e) @
                   when_truthy (events_location e) (\<lambda>l. '' | '' @ l)) result)))
       (\<lambda>error. Inr (''Error listing events: '' @ error_message error))"

definition listEvents :: tool where
  "listEvents =
     \<lparr>tool_name = ''list_events'',
      tool_schema = [(''startDate'', ZString, True), (''endDate'', ZString, True),
                     (''eventTypeId'', ZNumber, True)],
      tool_func = (\<lambda>args env. listEvents_func env)\<rparr>"

definition updateEvent_func :: "tool_env \<Rightarrow> js_error + string" where
  "updateEvent_func env =
     try_catch
       (case reply_events env of
          Inl err \<Rightarrow> Inl err
        | Inr rows \<Rightarrow>
            (case rows of
               [] \<Rightarrow> Inr ''Error: Failed to update event or event not found''
             | updated # rest \<Rightarrow>
                 Inr (''Event updated: '' @ dq @ events_title updated @ dq)))
       (\<lambda>error. Inr (''Error updating event: '' @ error_message error))"

definition updateEvent :: tool where
  "updateEvent =
     \<lparr>tool_name = ''update_event'',
      tool_schema = [(''eventId'', ZNumber, False), (''title'', ZString, True),
                     (''description'', ZString, True), (''startTime'', ZString, True),
                     (''endTime'', ZString, True), (''location'', ZString, True)],
      tool_func = (\<lambda>args env. updateEvent_func env)\<rparr>"

definition deleteEvent_func :: "tool_env \<Rightarrow> int \<Rightarrow> js_error + string" where
  "deleteEvent_func env eventId =
     try_catch
       (case reply_done env of
          Inl err \<Rightarrow> Inl err
        | Inr done \<Rightarrow> Inr (''Event '' @ show_int eventId @ '' deleted successfully''))
       (\<lambda>error. Inr (''Error deleting event: '' @ error_message error))"

definition deleteEvent :: tool where
  "deleteEvent =
     \<lparr>tool_name = ''delete_event'', tool_schema = [(''eventId'', ZNumber, False)],
      tool_func = (\<lambda>args env.
        case z_number args ''eventId'' of
          Inl err \<Rightarrow> Inl err
        | Inr eventId \<Rightarrow> deleteEvent_func env eventId)\<rparr>"


subsection \<open>Attendee tools\<close>

definition attendee_statuses :: "string list" where
  "attendee_statuses = [''pending'', ''confirmed'', ''tentative'', ''declined'']"

definition addAttendee_func :: "tool_env \<Rightarrow> int \<Rightarrow> js_error + string" where
  "addAttendee_func env eventId =
     try_catch
       (case reply_attendees env of
          Inl err \<Rightarrow> Inl err
        | Inr rows \<Rightarrow>
            (case rows of
               [] \<Rightarrow> Inr ''Error: Failed to add attendee''
             | attendee # rest \<Rightarrow>
                 Inr (''Attendee added: '' @ attendees_name attendee @
                      when_truthy (attendees_email attendee) (\<lambda>e. '' ('' @ e @ '')'') @
                      '' to event '' @ show_int eventId @ '' with status: '' @
                      attendees_status attendee)))
       (\<lambda>error. Inr (''Error adding attendee: '' @ error_message error))"

definition addAttendee :: tool where
  "addAttendee =
     \<lparr>tool_name = ''add_attendee'',
      tool_schema = [(''eventId'', ZNumber, False), (''name'', ZString, False),
                     (''email'', ZString, True), (''status'', ZEnum attendee_statuses, True)],
      tool_func = (\<lambda>args env.
        case z_number args ''eventId'' of
          Inl err \<Rightarrow> Inl err
        | Inr eventId \<Rightarrow> addAttendee_func env eventId)\<rparr>"

definition updateAttendeeStatus_func :: "tool_env \<Rightarrow> js_error + string" where
  "updateAttendeeStatus_func env =
     try_catch
       (case reply_attendees env of
          Inl err \<Rightarrow> Inl err
        | Inr rows \<Rightarrow>
            (case rows of
               [] \<Rightarrow> Inr ''Error: Failed to update attendee status or attendee not found''
             | updated # rest \<Rightarrow>
                 Inr (''Attendee status updated to: '' @ attendees_status updated)))
       (\<lambda>error. Inr (''Error updating attendee status: '' @ error_message error))"

definition updateAttendeeStatus :: tool where
  "updateAttendeeStatus =
     \<lparr>tool_name = ''update_attendee_status'',
      tool_schema = [(''attendeeId'', ZNumber, False), (''status'', ZEnum attendee_statuses, False),
                     (''notes'', ZString, True)],
      tool_func = (\<lambda>args env. updateAttendeeStatus_func env)\<rparr>"

definition removeAttendee_func :: "tool_env \<Rightarrow> int \<Rightarrow> js_error + string" where
  "removeAttendee_func env attendeeId =
     try_catch
       (case reply_done env of
          Inl err \<Rightarrow> Inl err
        | Inr done \<Rightarrow> Inr (''Attendee '' @ show_int attendeeId @ '' removed successfully''))
       (\<lambda>error. Inr (''Error removing attendee: '' @ error_message error))"

definition removeAttendee :: tool where
  "removeAttendee =
     \<lparr>tool_name = ''remove_attendee'', tool_schema = [(''attendeeId'', ZNumber, False)],
      tool_func = (\<lambda>args env.
        case z_number args ''attendeeId'' of
          Inl err \<Rightarrow> Inl err
        | Inr attendeeId \<Rightarrow> removeAttendee_func env attendeeId)\<rparr>"

definition listEventAttendees_func :: "tool_env \<Rightarrow> js_error + string" where
  "listEventAttendees_func env =
     try_catch
       (case reply_attendees env of
          Inl err \<Rightarrow> Inl err
        | Inr eventAttendees \<Rightarrow>
            if length eventAttendees = 0 then Inr ''No attendees found for this event''
            else Inr (join nl (map (\<lambda>a.
                   show_int (attendees_id a) @ '': '' @ attendees_name a @
                   when_truthy (attendees_email a) (\<lambda>e. '' ('' @ e @ '')'') @
                   '' - Status: '' @ attendees_status a @
                   when_truthy (attendees_notes a) (\<lambda>n. '' - Notes: '' @ n)) eventAttendees)))
       (\<lambda>error. Inr (''Error listing attendees: '' @ error_message error))"

definition listEventAttendees :: tool where
  "listEventAttendees =
     \<lparr>tool_name = ''list_event_attendees'', tool_schema = [(''eventId'', ZNumber, False)],
      tool_func = (\<lambda>args env. listEventAttendees_func env)\<rparr>"


subsection \<open>Reminder tools\<close>

definition createReminder_func :: "tool_env \<Rightarrow> int \<Rightarrow> js_error + string" where
  "createReminder_func env eventId =
     try_catch
       (case reply_reminders env of
          Inl err \<Rightarrow> Inl err
        | Inr rows \<Rightarrow>
            (case rows of
               [] \<Rightarrow> Inr ''Error: Failed to create reminder''
             | reminder # rest \<Rightarrow>
                 Inr (''Reminder created for event '' @ show_int eventId @ '' at '' @
                      env_dateToString env (reminders_reminderTime reminder))))
       (\<lambda>error. Inr (''Error creating reminder: '' @ error_message error))"

definition createReminder :: tool where
  "createReminder =
     \<lparr>tool_name = ''create_reminder'',
      tool_schema = [(''eventId'', ZNumber, False), (''reminderTime'', ZString, False)],
      tool_func = (\<lambda>args env.
        case z_number args ''eventId'' of
          Inl err \<Rightarrow> Inl err
        | Inr eventId \<Rightarrow> createReminder_func env eventId)\<rparr>"

definition listReminders_func :: "tool_env \<Rightarrow> js_error + string" where
  "listReminders_func env =
     try_catch
       (case reply_reminders_with_event env of
          Inl err \<Rightarrow> Inl err
        | Inr reminderList \<Rightarrow>
            if length reminderList = 0 then Inr ''No reminders found''
            else Inr (join nl (map (\<lambda>r.
                   (case r of (reminder, event) \<Rightarrow>
                      show_int (reminders_id reminder) @ '': Event '' @ dq @
                      (case event of None \<Rightarrow> ''Unknown Event'' | Some e \<Rightarrow> events_title e) @ dq @
                      '' at '' @ env_dateToString env (reminders_reminderTime reminder) @
                      '' (Sent: '' @ show_bool (reminders_sent reminder) @ '')'')) reminderList)))
       (\<lambda>error. Inr (''Error listing reminders: '' @ error_message error))"

definition listReminders :: tool where
  "listReminders =
     \<lparr>tool_name = ''list_reminders'',
      tool_schema = [(''eventId'', ZNumber, True), (''includeSet'', ZBoolean, True)],
      tool_func = (\<lambda>args env. listReminders_func env)\<rparr>"

definition markReminderSent_func :: "tool_env \<Rightarrow> int \<Rightarrow> js_error + string" where
  "markReminderSent_func env reminderId =
     try_catch
       (case reply_done env of
          Inl err \<Rightarrow> Inl err
        | Inr done \<Rightarrow> Inr (''Reminder '' @ show_int reminderId @ '' marked as sent''))
       (\<lambda>error. Inr (''Error marking reminder as sent: '' @ error_message error))"

definition markReminderSent :: tool where
  "markReminderSent =
     \<lparr>tool_name = ''mark_reminder_sent'', tool_schema = [(''reminderId'', ZNumber, False)],
      tool_func = (\<lambda>args env.
        case z_number args ''reminderId'' of
          Inl err \<Rightarrow> Inl err
        | Inr reminderId \<Rightarrow> markReminderSent_func env reminderId)\<rparr>"

definition allTools :: "tool list" where
  "allTools =
     [checkEventConflicts, createEventType, listEventTypes, createEvent, getEvent, listEvents,
      updateEvent, deleteEvent, addAttendee, updateAttendeeStatus, removeAttendee,
      listEventAttendees, createReminder, listReminders, markReminderSent]"


section \<open>The agent graph\<close>

record tool_call =
  call_name :: string
  call_args :: "string \<Rightarrow> jsval option"
  call_id :: string

datatype role = User | Assistant | Tool

text \<open>
  A message of the transcript. Only a message of the assistant has the property
  \<open>tool_calls\<close>; \<open>None\<close> stands for a message without it.
\<close>

record BaseMessage =
  role :: role
  content :: string
  tool_calls :: "tool_call list option"

record AgentState =
  messages :: "BaseMessage list"
  pendingEventCheck :: "ConflictRequest option"
  conflictCheckResult :: "string option"

datatype node = agent | tools | conflict_detector

datatype target = Node node | END

text \<open>
  \<open>callModel\<close>. The reasoning service is a parameter: it answers a transcript with a
  message, or its call fails. The reducer of \<open>messages\<close> appends what a node returns to
  the transcript; the two other fields of the state are replaced by what a node returns
  for them and keep their value otherwise.
\<close>

definition callModel ::
  "(BaseMessage list \<Rightarrow> js_error + BaseMessage) \<Rightarrow> AgentState \<Rightarrow> js_error + AgentState" where
  "callModel modelWithTools state =
     (case modelWithTools (messages state) of
        Inl err \<Rightarrow> Inl err
      | Inr response \<Rightarrow> Inr (state\<lparr>messages := messages state @ [response]\<rparr>))"

text \<open>The node \<open>checkConflicts\<close> of the agent graph, which runs the conflict subgraph.\<close>

definition checkConflicts_agent ::
  "(int \<Rightarrow> string) \<Rightarrow> AgentState \<Rightarrow> storage \<Rightarrow> (js_error + AgentState) \<times> storage" where
  "checkConflicts_agent toLocaleString state db =
     (case pendingEventCheck state of
        None \<Rightarrow> (Inr (state\<lparr>conflictCheckResult := None\<rparr>), db)
      | Some pending \<Rightarrow>
          (case conflictDetectionGraph_invoke toLocaleString
                  \<lparr>startTime = startTime pending, endTime = endTime pending,
                   excludeEventId = excludeEventId pending,
                   conflicts = [], hasConflicts = False, message = []\<rparr> db of
             (Inl err, db') \<Rightarrow> (Inl err, db')
           | (Inr result, db') \<Rightarrow>
               (Inr (state\<lparr>conflictCheckResult := Some (message result),
                           pendingEventCheck := None\<rparr>), db')))"

definition shouldCheckConflicts :: "AgentState \<Rightarrow> string" where
  "shouldCheckConflicts state =
     (case messages state of
        [] \<Rightarrow> ''continue''
      | _ \<Rightarrow>
          (case tool_calls (last (messages state)) of
             None \<Rightarrow> ''continue''
           | Some calls \<Rightarrow>
               if list_ex (\<lambda>tc. call_name tc = ''check_event_conflicts'') calls
               then ''conflict_detector'' else ''continue''))"

definition shouldContinue :: "AgentState \<Rightarrow> target" where
  "shouldContinue state =
     (case messages state of
        [] \<Rightarrow> END
      | _ \<Rightarrow>
          (case tool_calls (last (messages state)) of
             None \<Rightarrow> END
           | Some calls \<Rightarrow> if length calls > 0 then Node tools else END))"

text \<open>
  The prebuilt \<open>ToolNode\<close> of the graph library, Tool Dispatch in the specification: it
  takes the tool calls of the last message, which has to be a message of the assistant, runs
  each call against the catalogue, and appends one tool-result message per call, in the
  order of the calls. A tool that is not in the catalogue, an input that does not match the
  schema and anything else the tool throws become the content of the result message. The
  node writes to \<open>messages\<close> only. The environment of each call is a parameter, so
  nothing is assumed about the order in which the calls reach the storage.
\<close>

definition ToolNode_error :: "js_error \<Rightarrow> string" where
  "ToolNode_error err =
     ''Error: '' @ (case err of Error m \<Rightarrow> m | Thrown \<Rightarrow> ''undefined'') @ nl @
     '' Please fix your mistakes.''"

definition ToolNode_call ::
  "tool list \<Rightarrow> (tool_call \<Rightarrow> tool_env) \<Rightarrow> tool_call \<Rightarrow> js_error + BaseMessage" where
  "ToolNode_call catalogue env call =
     try_catch
       (case find (\<lambda>t. tool_name t = call_name call) catalogue of
          None \<Rightarrow> Inl (Error (''Tool '' @ dq @ call_name call @ dq @ '' not found.''))
        | Some t \<Rightarrow>
            (case tool_invoke t (call_args call) (env call) of
               Inl err \<Rightarrow> Inl err
             | Inr output \<Rightarrow> Inr \<lparr>role = Tool, content = output, tool_calls = None\<rparr>))
       (\<lambda>e. Inr \<lparr>role = Tool, content = ToolNode_error e, tool_calls = None\<rparr>)"

fun run_calls ::
  "(tool_call \<Rightarrow> js_error + BaseMessage) \<Rightarrow> tool_call list \<Rightarrow> js_error + BaseMessage list" where
  "run_calls f [] = Inr []"
| "run_calls f (call # calls) =
     (case f call of
        Inl err \<Rightarrow> Inl err
      | Inr m \<Rightarrow> (case run_calls f calls of Inl err \<Rightarrow> Inl err | Inr ms \<Rightarrow> Inr (m # ms)))"

definition ToolNode ::
  "tool list \<Rightarrow> (tool_call \<Rightarrow> tool_env) \<Rightarrow> AgentState \<Rightarrow> js_error + AgentState" where
  "ToolNode catalogue env state =
     (case messages state of
        [] \<Rightarrow> Inl (Error ''ToolNode only accepts AIMessages as input.'')
      | _ \<Rightarrow>
          (let m = last (messages state) in
           if role m \<noteq> Assistant
           then Inl (Error ''ToolNode only accepts AIMessages as input.'')
           else
             (case run_calls (ToolNode_call catalogue env)
                     (case tool_calls m of None \<Rightarrow> [] | Some calls \<Rightarrow> calls) of
                Inl err \<Rightarrow> Inl err
              | Inr outputs \<Rightarrow> Inr (state\<lparr>messages := messages state @ outputs\<rparr>))))"

text \<open>The path map of the conditional edges that leave \<open>tools\<close>.\<close>

definition tools_edges :: "string \<Rightarrow> target option" where
  "tools_edges =
     map_of [(''conflict_detector'', Node conflict_detector), (''continue'', Node agent)]"

text \<open>
  One transition of the compiled graph: the node runs, its result is merged into the state,
  and the edges that leave the node choose the next one. A failure of the node ends the run.
\<close>

definition step ::
  "(BaseMessage list \<Rightarrow> js_error + BaseMessage) \<Rightarrow> tool list \<Rightarrow> (tool_call \<Rightarrow> tool_env) \<Rightarrow>
     (int \<Rightarrow> string) \<Rightarrow> storage \<Rightarrow> node \<Rightarrow> AgentState \<Rightarrow> js_error + target \<times> AgentState" where
  "step modelWithTools catalogue env toLocaleString db n state =
     (case n of
        agent \<Rightarrow>
          (case callModel modelWithTools state of
             Inl err \<Rightarrow> Inl err
           | Inr state' \<Rightarrow> Inr (shouldContinue state', state'))
      | tools \<Rightarrow>
          (case ToolNode catalogue env state of
             Inl err \<Rightarrow> Inl err
           | Inr state' \<Rightarrow>
               (case tools_edges (shouldCheckConflicts state') of
                  None \<Rightarrow> Inl (Error ''Branch condition returned unknown or null destination'')
                | Some next \<Rightarrow> Inr (next, state')))
      | conflict_detector \<Rightarrow>
          (case fst (checkConflicts_agent toLocaleString state db) of
             Inl err \<Rightarrow> Inl err
           | Inr state' \<Rightarrow> Inr (Node agent, state')))"






section \<open>The wording of the specification\<close>

text \<open>
  The line of one conflicting event as the specification words it: the title in quotes, the
  two instants in parentheses, and the location appended when the event has one. The
  separator of the two instants is the one of the source.
\<close>

definition spec_conflict_line :: "(int \<Rightarrow> string) \<Rightarrow> conflict_event \<Rightarrow> string" where
  "spec_conflict_line toLocaleString event =
     ''  - '' @ dq @ conflict_title event @ dq @ '' ('' @
     toLocaleString (conflict_startTime event) @ '' - '' @
     toLocaleString (conflict_endTime event) @ '')'' @
     (case conflict_location event of None \<Rightarrow> [] | Some l \<Rightarrow> '' at '' @ l) @ nl"


section \<open>The scenarios of the specification\<close>

text \<open>Event A of the scenarios, from 10:00 to 11:00 on 2024-01-01 (UTC, in milliseconds).\<close>

definition event_A :: events_row where
  "event_A =
     \<lparr>events_id = 1, events_title = ''A'', events_description = None,
      events_startTime = 1704103200000, events_endTime = 1704106800000,
      events_location = Some ''Room 1'', events_eventTypeId = 1,
      events_isAllDay = False, events_isRecurring = False, events_recurrenceRule = None,
      events_createdAt = 0, events_updatedAt = 0\<rparr>"

text \<open>A row whose location is the empty text.\<close>

definition event_Z :: events_row where
  "event_Z =
     \<lparr>events_id = 3, events_title = ''Z'', events_description = None,
      events_startTime = 10, events_endTime = 20,
      events_location = Some [], events_eventTypeId = 1,
      events_isAllDay = False, events_isRecurring = False, events_recurrenceRule = None,
      events_createdAt = 0, events_updatedAt = 0\<rparr>"

text \<open>Event B, from 10:30 to 11:30 on the same day, without a location.\<close>

definition event_B :: events_row where
  "event_B =
     \<lparr>events_id = 2, events_title = ''B'', events_description = None,
      events_startTime = 1704105000000, events_endTime = 1704108600000,
      events_location = None, events_eventTypeId = 1,
      events_isAllDay = False, events_isRecurring = False, events_recurrenceRule = None,
      events_createdAt = 0, events_updatedAt = 0\<rparr>"

definition store_A :: storage where
  "store_A = \<lparr>events = [event_A], reads = []\<rparr>"

definition store_Z :: storage where
  "store_Z = \<lparr>events = [event_Z], reads = []\<rparr>"

text \<open>
  A storage that holds A and B and returns them in the stored order at the first read and
  in the other order at the second.
\<close>

definition store_AB :: storage where
  "store_AB = \<lparr>events = [event_A, event_B], reads = [Returns 0, Returns 1]\<rparr>"

definition conflict_text_AB :: string where
  "conflict_text_AB =
     warning_sign @ ''  Found 2 conflicting event(s):'' @ nl @
     ''  - '' @ dq @ ''A'' @ dq @ '' (1704103200000 - 1704106800000) at Room 1'' @ nl @
     ''  - '' @ dq @ ''B'' @ dq @ '' (1704105000000 - 1704108600000)'' @ nl"

definition conflict_text_BA :: string where
  "conflict_text_BA =
     warning_sign @ ''  Found 2 conflicting event(s):'' @ nl @
     ''  - '' @ dq @ ''B'' @ dq @ '' (1704105000000 - 1704108600000)'' @ nl @
     ''  - '' @ dq @ ''A'' @ dq @ '' (1704103200000 - 1704106800000) at Room 1'' @ nl"

text \<open>
  Scenario 5: the assistant asks for the conflict-check tool, for the range from 10:30 to
  11:30, after a question of the user; no conflict check is pending.
\<close>

definition conflict_call :: tool_call where
  "conflict_call =
     \<lparr>call_name = ''check_event_conflicts'',
      call_args = map_of [(''startTime'', JStr ''2024-01-01T10:30:00Z''),
                          (''endTime'', JStr ''2024-01-01T11:30:00Z'')],
      call_id = ''call_1''\<rparr>"

definition state_request :: AgentState where
  "state_request =
     \<lparr>messages = [\<lparr>role = User, content = ''Is 10:30 to 11:30 free?'', tool_calls = None\<rparr>,
                  \<lparr>role = Assistant, content = [], tool_calls = Some [conflict_call]\<rparr>],
      pendingEventCheck = None, conflictCheckResult = None\<rparr>"

definition example_newDate :: "string \<Rightarrow> date" where
  "example_newDate text =
     (if text = ''2024-01-01T10:30:00Z'' then Date 1704105000000
      else if text = ''2024-01-01T11:30:00Z'' then Date 1704108600000
      else InvalidDate)"

definition example_env :: tool_env where
  "example_env =
     \<lparr>env_toLocaleString = show_int, env_dateToString = show_int,
      env_newDate = example_newDate, env_db = store_A,
      reply_event_types = Inr [], reply_events = Inr [], reply_event_with_type = Inr [],
      reply_attendees = Inr [], reply_reminders = Inr [], reply_reminders_with_event = Inr [],
      reply_done = Inr ()\<rparr>"

text \<open>The text that the conflict check renders for the range of the scenario.\<close>

definition conflict_text_A :: string where
  "conflict_text_A =
     warning_sign @ ''  Found 1 conflicting event(s):'' @ nl @
     ''  - '' @ dq @ ''A'' @ dq @ '' (1704103200000 - 1704106800000) at Room 1'' @ nl"




text \<open>
  A storage that is down: the next read of the stored events and every other query of a
  tool call fail with the same error.
\<close>

definition storage_refuses :: "tool_env \<Rightarrow> js_error \<Rightarrow> bool" where
  "storage_refuses env err =
     ((case reads (env_db env) of Fails e # rest \<Rightarrow> e = err | _ \<Rightarrow> False) \<and>
      reply_event_types env = Inl err \<and>
      reply_events env = Inl err \<and> reply_event_with_type env = Inl err \<and>
      reply_attendees env = Inl err \<and> reply_reminders env = Inl err \<and>
      reply_reminders_with_event env = Inl err \<and> reply_done env = Inl err)"

text \<open>An environment in which the storage refuses every query.\<close>

definition failing_env :: tool_env where
  "failing_env =
     \<lparr>env_toLocaleString = show_int, env_dateToString = show_int,
      env_newDate = example_newDate,
      env_db = \<lparr>events = [event_A], reads = [Fails (Error ''connection refused'')]\<rparr>,
      reply_event_types = Inl (Error ''connection refused''),
      reply_events = Inl (Error ''connection refused''),
      reply_event_with_type = Inl (Error ''connection refused''),
      reply_attendees = Inl (Error ''connection refused''),
      reply_reminders = Inl (Error ''connection refused''),
      reply_reminders_with_event = Inl (Error ''connection refused''),
      reply_done = Inl (Error ''connection refused'')\<rparr>"


section \<open>Properties of conflict detection\<close>

declare show_nat.simps [simp del]

lemma mset_row_order [simp]: "mset (row_order k xs) = mset xs"
proof (induction xs arbitrary: k)
  case Nil
  then show ?case by simp
next
  case (Cons x xs)
  let ?ys = "row_order (k div Suc (length xs)) xs"
  let ?i = "k mod Suc (length xs)"
  have "mset (take ?i ?ys) + mset (drop ?i ?ys) = mset ?ys"
    by (metis append_take_drop_id mset_append)
  then have "mset (take ?i ?ys @ x # drop ?i ?ys) = add_mset x (mset ?ys)"
    by simp
  also have "\<dots> = add_mset x (mset xs)"
    by (simp only: Cons.IH)
  finally show ?case by (simp add: Let_def)
qed

lemma set_row_order [simp]: "set (row_order k xs) = set xs"
  using mset_row_order [of k xs] by (metis set_mset_mset)

lemma row_order_0 [simp]: "row_order 0 xs = xs"
  by (induction xs) simp_all

lemma select_events_cases:
  "select_events cond db = (r, db') \<Longrightarrow>
     events db' = events db \<and>
     (case r of
        Inl err \<Rightarrow> True
      | Inr rows \<Rightarrow> mset rows = mset (filter cond (events db)))"
  by (auto simp: select_events_def split: list.splits read.splits)

lemma conflictingEvents_storage:
  "conflictingEvents start end ex db = (r, db') \<Longrightarrow> events db' = events db"
  by (auto simp: conflictingEvents_def split: sum.splits prod.splits
      dest: select_events_cases)

lemma conflictingEvents_Inr:
  "conflictingEvents start end ex db = (Inr found, db') \<Longrightarrow>
     \<exists>s e rows. start = Date s \<and> end = Date e \<and>
       mset rows = mset (filter (and_conditions (conditions s e ex)) (events db)) \<and>
       found = map selected_columns rows"
  by (auto simp: conflictingEvents_def mapToDriverValue_def
      split: sum.splits prod.splits date.splits dest!: select_events_cases)

lemma conflictingEvents_set:
  assumes "conflictingEvents (Date s) (Date e) ex db = (Inr found, db')"
  shows "set found =
     selected_columns ` {r \<in> set (events db). and_conditions (conditions s e ex) r}"
proof -
  from assms obtain rows where
    rows: "mset rows = mset (filter (and_conditions (conditions s e ex)) (events db))"
    and found: "found = map selected_columns rows"
    by (auto dest: conflictingEvents_Inr)
  from rows have "set rows = set (filter (and_conditions (conditions s e ex)) (events db))"
    by (metis set_mset_mset)
  then show ?thesis by (auto simp: found)
qed

lemma and_conditions_iff:
  "and_conditions (conditions s e ex) r \<longleftrightarrow>
     events_endTime r \<ge> s \<and> events_startTime r \<le> e \<and>
     (case ex of None \<Rightarrow> True | Some x \<Rightarrow> x = 0 \<or> events_id r \<noteq> x)"
  by (auto simp: and_conditions_def conditions_def gte_def lte_def ne_def truthy_number_def
      split: option.splits)

lemma selected_columns_eq:
  "selected_columns r = selected_columns r' \<longleftrightarrow>
     events_id r = events_id r' \<and> events_title r = events_title r' \<and>
     events_startTime r = events_startTime r' \<and> events_endTime r = events_endTime r' \<and>
     events_location r = events_location r'"
  by (auto simp: selected_columns_def)

lemma foldl_conflict_line:
  "foldl (conflict_line loc) acc evs = acc @ concat (map (conflict_line loc []) evs)"
proof (induction evs arbitrary: acc)
  case Nil
  then show ?case by simp
next
  case (Cons ev evs)
  have "conflict_line loc acc ev = acc @ conflict_line loc [] ev"
    by (simp add: conflict_line_def Let_def split: option.splits)
  then show ?case by (simp add: Cons.IH)
qed

lemma checkConflicts_Inr:
  "checkConflicts loc state db = (Inr state', db') \<Longrightarrow>
     \<exists>found. conflictingEvents (startTime state) (endTime state) (excludeEventId state) db
                = (Inr found, db') \<and>
       state' = state\<lparr>conflicts := found, hasConflicts := (length found > 0),
                      message := render_message loc found\<rparr>"
  by (auto simp: checkConflicts_def split: prod.splits sum.splits)

text \<open>
  Claim C1. For a stored event \<open>E\<close> that the exclusion rule does not remove and a candidate
  range \<open>[s, e]\<close>, the result of the overlap query includes \<open>E\<close> if and only if
  \<open>E.end \<ge> s\<close> and \<open>E.start \<le> e\<close>. In particular, for a range and an event that are
  not inverted, an event that ends exactly at \<open>s\<close> or starts exactly at \<open>e\<close> is reported:
  touching boundaries count as conflicts.
\<close>

theorem overlap_inclusive:
  assumes "conflictingEvents (Date s) (Date e) excludeId db = (Inr found, db')"
    and "E \<in> set (events db)"
    and "excludeId \<noteq> Some (events_id E) \<or> events_id E = 0"
  shows "(selected_columns E \<in> set found \<longleftrightarrow> events_endTime E \<ge> s \<and> events_startTime E \<le> e)
       \<and> (s \<le> e \<and> events_startTime E \<le> events_endTime E \<and>
            (events_endTime E = s \<or> events_startTime E = e) \<longrightarrow> selected_columns E \<in> set found)"
proof -
  from assms(1) have found: "set found =
      selected_columns ` {r \<in> set (events db). and_conditions (conditions s e excludeId) r}"
    by (rule conflictingEvents_set)
  have keep: "and_conditions (conditions s e excludeId) r \<longleftrightarrow>
      events_endTime r \<ge> s \<and> events_startTime r \<le> e"
    if "selected_columns r = selected_columns E" for r
    using that assms(3) by (auto simp: and_conditions_iff selected_columns_eq split: option.splits)
  have iff: "selected_columns E \<in> set found \<longleftrightarrow> events_endTime E \<ge> s \<and> events_startTime E \<le> e"
  proof
    assume "selected_columns E \<in> set found"
    then obtain r where r: "r \<in> set (events db)" "and_conditions (conditions s e excludeId) r"
      "selected_columns r = selected_columns E"
      unfolding found by auto
    then show "events_endTime E \<ge> s \<and> events_startTime E \<le> e"
      using keep[of r] by (simp add: selected_columns_eq)
  next
    assume "events_endTime E \<ge> s \<and> events_startTime E \<le> e"
    then have "and_conditions (conditions s e excludeId) E" using keep[of E] by simp
    then show "selected_columns E \<in> set found" unfolding found using assms(2) by auto
  qed
  then show ?thesis by auto
qed

text \<open>Scenario 2: event A ends at 11:00 and the candidate range starts at 11:00.\<close>

theorem overlap_inclusive_witness:
  "conflictingEvents (Date 1704106800000) (Date 1704110400000) None store_A
     = (Inr [selected_columns event_A], store_A)
   \<and> event_A \<in> set (events store_A)
   \<and> events_endTime event_A = 1704106800000
   \<and> selected_columns event_A \<in> set [selected_columns event_A]"
proof -
  have run: "conflictingEvents (Date 1704106800000) (Date 1704110400000) None store_A
     = (Inr [selected_columns event_A], store_A)"
    by (simp add: conflictingEvents_def mapToDriverValue_def select_events_def store_A_def
        and_conditions_def conditions_def gte_def lte_def event_A_def)
  have stored: "event_A \<in> set (events store_A)" by (simp add: store_A_def)
  have other: "None \<noteq> Some (events_id event_A) \<or> events_id event_A = 0" by simp
  show ?thesis
    using overlap_inclusive [OF run stored other] run stored by (simp add: event_A_def)
qed

text \<open>
  Claim C4. The identifiers of the stored events come from a \<open>serial\<close> column, which counts
  from 1. On such a storage, for every candidate range and every supplied exclusion
  identifier, no event of the result has that identifier, and a stored event with that
  identifier is left out of the result whether or not it overlaps the range.
\<close>

theorem exclusion_by_id:
  assumes "\<forall>E \<in> set (events db). 0 < events_id E"
    and "conflictingEvents start finish (Some x) db = (Inr found, db')"
  shows "(\<forall>c \<in> set found. conflict_id c \<noteq> x)
       \<and> (\<forall>E \<in> set (events db). events_id E = x \<longrightarrow> selected_columns E \<notin> set found)"
proof -
  from assms(2) obtain s e where dates: "start = Date s" "finish = Date e"
    by (auto dest: conflictingEvents_Inr)
  have found: "set found =
      selected_columns ` {r \<in> set (events db). and_conditions (conditions s e (Some x)) r}"
    using assms(2) unfolding dates by (rule conflictingEvents_set)
  have ids: "\<forall>c \<in> set found. conflict_id c \<noteq> x"
    unfolding found using assms(1)
    by (auto simp: and_conditions_iff selected_columns_def)
  moreover have "\<forall>E \<in> set (events db). events_id E = x \<longrightarrow> selected_columns E \<notin> set found"
    using ids by (auto simp: selected_columns_def)
  ultimately show ?thesis by simp
qed

text \<open>Scenario 3: event A overlaps the candidate range and is excluded by its identifier.\<close>

theorem exclusion_by_id_witness:
  "events store_A = [event_A] \<and> 0 < events_id event_A
   \<and> conflictingEvents (Date 1704105000000) (Date 1704108600000) (Some 1) store_A = (Inr [], store_A)
   \<and> events_id event_A = 1 \<and> selected_columns event_A \<notin> set []"
proof -
  have serial: "\<forall>E \<in> set (events store_A). 0 < events_id E"
    by (simp add: store_A_def event_A_def)
  have run: "conflictingEvents (Date 1704105000000) (Date 1704108600000) (Some 1) store_A
      = (Inr [], store_A)"
    by (simp add: conflictingEvents_def mapToDriverValue_def select_events_def store_A_def
        and_conditions_def conditions_def gte_def lte_def ne_def truthy_number_def event_A_def)
  show ?thesis
    using exclusion_by_id [OF serial run] serial run by (simp add: event_A_def store_A_def)
qed

text \<open>
  Claim C7, as amended. The message of the Conflict Subroutine is the fixed text for no
  conflicts when no event conflicts; otherwise it is a header with the number of conflicts
  followed by one line per conflicting event, in the order of the result: the title in
  double quotes, the two instants in parentheses separated by a hyphen, and the location
  after \<open>at\<close> exactly when the event has a location that is not the empty text.
\<close>

theorem rendered_message:
  assumes "checkConflicts loc state db = (Inr state', db')"
  shows "message state' =
     (if conflicts state' = [] then check_mark @ '' No conflicts found''
      else warning_sign @ ''  Found '' @ show_nat (length (conflicts state')) @
           '' conflicting event(s):'' @ nl @
           concat (map (\<lambda>event.
               ''  - '' @ dq @ conflict_title event @ dq @ '' ('' @
               loc (conflict_startTime event) @ '' - '' @ loc (conflict_endTime event) @ '')'' @
               (case conflict_location event of
                  None \<Rightarrow> []
                | Some l \<Rightarrow> if l = [] then [] else '' at '' @ l) @ nl)
             (conflicts state')))"
proof -
  let ?line = "\<lambda>event.
      ''  - '' @ dq @ conflict_title event @ dq @ '' ('' @
      loc (conflict_startTime event) @ '' - '' @ loc (conflict_endTime event) @ '')'' @
      (case conflict_location event of
         None \<Rightarrow> []
       | Some l \<Rightarrow> if l = [] then [] else '' at '' @ l) @ nl"
  from assms obtain found where st: "state' = state\<lparr>conflicts := found,
      hasConflicts := (length found > 0), message := render_message loc found\<rparr>"
    by (auto dest: checkConflicts_Inr)
  have msg: "message state' = render_message loc found" and cs: "conflicts state' = found"
    by (simp_all add: st)
  have line: "conflict_line loc [] = ?line"
    by (rule ext) (simp add: conflict_line_def Let_def truthy_string_def dq_def split: option.splits)
  have rm: "render_message loc found =
     (if found = [] then check_mark @ '' No conflicts found''
      else warning_sign @ ''  Found '' @ show_nat (length found) @
           '' conflicting event(s):'' @ nl @ concat (map (conflict_line loc []) found))"
    by (simp add: render_message_def foldl_conflict_line)
  show ?thesis
    by (simp only: msg cs rm line)
qed

text \<open>Scenario 1: the candidate range from 10:30 to 11:30 conflicts with event A.\<close>

theorem rendered_message_witness:
  "fst (checkConflicts show_int
      \<lparr>startTime = Date 1704105000000, endTime = Date 1704108600000, excludeEventId = None,
       conflicts = [], hasConflicts = False, message = []\<rparr> store_A)
    = Inr \<lparr>startTime = Date 1704105000000, endTime = Date 1704108600000, excludeEventId = None,
       conflicts = [selected_columns event_A], hasConflicts = True,
       message = warning_sign @ ''  Found 1 conflicting event(s):'' @ nl @
         ''  - '' @ dq @ ''A'' @ dq @ '' (1704103200000 - 1704106800000) at Room 1'' @ nl\<rparr>"
proof -
  have run: "checkConflicts show_int
      \<lparr>startTime = Date 1704105000000, endTime = Date 1704108600000, excludeEventId = None,
       conflicts = [], hasConflicts = False, message = []\<rparr> store_A
    = (Inr \<lparr>startTime = Date 1704105000000, endTime = Date 1704108600000, excludeEventId = None,
       conflicts = [selected_columns event_A], hasConflicts = True,
       message = render_message show_int [selected_columns event_A]\<rparr>, store_A)"
    by (simp add: checkConflicts_def conflictingEvents_def mapToDriverValue_def select_events_def
        store_A_def and_conditions_def conditions_def gte_def lte_def event_A_def)
  have n1: "show_nat (Suc 0) = ''1''" by (simp add: show_nat.simps)
  have a: "show_int 1704103200000 = ''1704103200000''" by (simp add: show_int_def show_nat.simps)
  have b: "show_int 1704106800000 = ''1704106800000''" by (simp add: show_int_def show_nat.simps)
  show ?thesis
    using rendered_message [OF run] run
    by (simp add: selected_columns_def event_A_def n1 a b)
qed

text \<open>
  Claim C7, as stated, fails for an event whose location is the empty text: the event has a
  location, \<open>if (event.location)\<close> is false for it, and its line ends after the closing
  parenthesis, where the line the specification words ends with \<open>at\<close> and the location.
\<close>

theorem empty_location_counterexample:
  "conflict_location (selected_columns event_Z) = Some []
   \<and> render_message show_int [selected_columns event_Z] =
       warning_sign @ ''  Found 1 conflicting event(s):'' @ nl @
       ''  - '' @ dq @ ''Z'' @ dq @ '' (10 - 20)'' @ nl
   \<and> spec_conflict_line show_int (selected_columns event_Z) =
       ''  - '' @ dq @ ''Z'' @ dq @ '' (10 - 20) at '' @ nl
   \<and> render_message show_int [selected_columns event_Z] \<noteq>
       warning_sign @ ''  Found 1 conflicting event(s):'' @ nl @
       spec_conflict_line show_int (selected_columns event_Z)"
proof -
  have n1: "show_nat (Suc 0) = ''1''" by (simp add: show_nat.simps)
  have a: "show_int 10 = ''10''" by (simp add: show_int_def show_nat.simps)
  have b: "show_int 20 = ''20''" by (simp add: show_int_def show_nat.simps)
  show ?thesis
    by (simp add: render_message_def conflict_line_def spec_conflict_line_def Let_def
        selected_columns_def event_Z_def truthy_string_def n1 a b dq_def)
qed

lemma render_AB:
  "render_message show_int [selected_columns event_A, selected_columns event_B] = conflict_text_AB"
  and render_BA:
  "render_message show_int [selected_columns event_B, selected_columns event_A] = conflict_text_BA"
proof -
  have n2: "show_nat (Suc (Suc 0)) = ''2''" by (simp add: show_nat.simps)
  have a: "show_int 1704103200000 = ''1704103200000''" by (simp add: show_int_def show_nat.simps)
  have b: "show_int 1704106800000 = ''1704106800000''" by (simp add: show_int_def show_nat.simps)
  have c: "show_int 1704105000000 = ''1704105000000''" by (simp add: show_int_def show_nat.simps)
  have d: "show_int 1704108600000 = ''1704108600000''" by (simp add: show_int_def show_nat.simps)
  show "render_message show_int [selected_columns event_A, selected_columns event_B] = conflict_text_AB"
    by (simp add: render_message_def conflict_line_def Let_def selected_columns_def event_A_def
        event_B_def truthy_string_def conflict_text_AB_def dq_def n2 a b c d)
  show "render_message show_int [selected_columns event_B, selected_columns event_A] = conflict_text_BA"
    by (simp add: render_message_def conflict_line_def Let_def selected_columns_def event_A_def
        event_B_def truthy_string_def conflict_text_BA_def dq_def n2 a b c d)
qed

lemma first_check_AB:
  "detectConflicts show_int (Date 1704103200000) (Date 1704110400000) None store_AB =
     (Inr \<lparr>result_hasConflicts = True,
            result_conflicts = [selected_columns event_A, selected_columns event_B],
            result_message = conflict_text_AB\<rparr>, store_AB\<lparr>reads := [Returns 1]\<rparr>)"
proof -
  have found: "conflictingEvents (Date 1704103200000) (Date 1704110400000) None store_AB =
      (Inr [selected_columns event_A, selected_columns event_B], store_AB\<lparr>reads := [Returns 1]\<rparr>)"
    by (simp add: conflictingEvents_def mapToDriverValue_def select_events_def store_AB_def
        and_conditions_def conditions_def gte_def lte_def event_A_def event_B_def)
  show ?thesis
    by (simp add: detectConflicts_def conflictDetectionGraph_invoke_def checkConflicts_def
        found render_AB del: One_nat_def)
qed

lemma second_check_AB:
  "detectConflicts show_int (Date 1704103200000) (Date 1704110400000) None
       (store_AB\<lparr>reads := [Returns 1]\<rparr>) =
     (Inr \<lparr>result_hasConflicts = True,
            result_conflicts = [selected_columns event_B, selected_columns event_A],
            result_message = conflict_text_BA\<rparr>, store_AB\<lparr>reads := []\<rparr>)"
proof -
  have found: "conflictingEvents (Date 1704103200000) (Date 1704110400000) None
        (store_AB\<lparr>reads := [Returns 1]\<rparr>) =
      (Inr [selected_columns event_B, selected_columns event_A], store_AB\<lparr>reads := []\<rparr>)"
    by (simp add: conflictingEvents_def mapToDriverValue_def select_events_def store_AB_def
        and_conditions_def conditions_def gte_def lte_def event_A_def event_B_def Let_def)
  show ?thesis
    by (simp add: detectConflicts_def conflictDetectionGraph_invoke_def checkConflicts_def
        found render_BA del: One_nat_def)
qed

text \<open>
  Claim C9, as amended. A call of the Conflict Subroutine leaves the stored events as they
  are. When two calls with the same start, end and exclusion identifier, the second on the
  storage that the first has left, both return, they return the same conflicting events,
  each as often, in an order that the storage chooses at each read, and the same
  \<open>hasConflicts\<close> flag; each message is the rendering of the conflicts of its call in
  their order, so the two messages are the same whenever the two orders are.
\<close>

theorem detectConflicts_twice:
  assumes "detectConflicts loc start finish ex db = (Inr r1, db1)"
    and "detectConflicts loc start finish ex db1 = (Inr r2, db2)"
  shows "events db1 = events db \<and> events db2 = events db
       \<and> mset (result_conflicts r1) = mset (result_conflicts r2)
       \<and> result_hasConflicts r1 = result_hasConflicts r2
       \<and> result_message r1 = render_message loc (result_conflicts r1)
       \<and> result_message r2 = render_message loc (result_conflicts r2)
       \<and> (result_conflicts r1 = result_conflicts r2 \<longrightarrow> result_message r1 = result_message r2)"
proof -
  have shape: "\<exists>found. conflictingEvents a b x d = (Inr found, d') \<and> result_conflicts r = found
      \<and> result_hasConflicts r = (length found > 0) \<and> result_message r = render_message loc found"
    if "detectConflicts loc a b x d = (Inr r, d')" for a b x d d' r
    using that
    by (auto simp: detectConflicts_def conflictDetectionGraph_invoke_def checkConflicts_def
        split: prod.splits sum.splits)
  from shape [OF assms(1)] obtain f1 where f1: "conflictingEvents start finish ex db = (Inr f1, db1)"
    and r1: "result_conflicts r1 = f1" "result_hasConflicts r1 = (length f1 > 0)"
      "result_message r1 = render_message loc f1"
    by blast
  from shape [OF assms(2)] obtain f2 where f2: "conflictingEvents start finish ex db1 = (Inr f2, db2)"
    and r2: "result_conflicts r2 = f2" "result_hasConflicts r2 = (length f2 > 0)"
      "result_message r2 = render_message loc f2"
    by blast
  have e1: "events db1 = events db" using f1 by (rule conflictingEvents_storage)
  have e2: "events db2 = events db1" using f2 by (rule conflictingEvents_storage)
  from f1 obtain s e rows1 where d: "start = Date s" "finish = Date e"
    and m1: "mset rows1 = mset (filter (and_conditions (conditions s e ex)) (events db))"
    and g1: "f1 = map selected_columns rows1"
    by (auto dest: conflictingEvents_Inr)
  from f2 d obtain rows2 where
    m2: "mset rows2 = mset (filter (and_conditions (conditions s e ex)) (events db1))"
    and g2: "f2 = map selected_columns rows2"
    by (auto dest: conflictingEvents_Inr)
  have "mset rows1 = mset rows2" using m1 m2 e1 by simp
  then have "image_mset selected_columns (mset rows1) = image_mset selected_columns (mset rows2)"
    by simp
  then have same: "mset f1 = mset f2" by (simp add: g1 g2)
  then have "length f1 = length f2" by (metis size_mset)
  with same e1 e2 r1 r2 show ?thesis by simp
qed

text \<open>
  Two checks of the range from 10:00 to 12:00 on a storage that holds A and B: both return
  A and B, with the same flag, and each message renders the conflicts of its call.
\<close>

theorem detectConflicts_twice_witness:
  "detectConflicts show_int (Date 1704103200000) (Date 1704110400000) None store_AB =
     (Inr \<lparr>result_hasConflicts = True,
            result_conflicts = [selected_columns event_A, selected_columns event_B],
            result_message = conflict_text_AB\<rparr>, store_AB\<lparr>reads := [Returns 1]\<rparr>)
   \<and> detectConflicts show_int (Date 1704103200000) (Date 1704110400000) None
       (store_AB\<lparr>reads := [Returns 1]\<rparr>) =
     (Inr \<lparr>result_hasConflicts = True,
            result_conflicts = [selected_columns event_B, selected_columns event_A],
            result_message = conflict_text_BA\<rparr>, store_AB\<lparr>reads := []\<rparr>)
   \<and> mset [selected_columns event_A, selected_columns event_B] =
       mset [selected_columns event_B, selected_columns event_A]
   \<and> conflict_text_AB = render_message show_int [selected_columns event_A, selected_columns event_B]
   \<and> conflict_text_BA = render_message show_int [selected_columns event_B, selected_columns event_A]"
proof -
  note twice = detectConflicts_twice [OF first_check_AB second_check_AB]
  from twice have same: "mset [selected_columns event_A, selected_columns event_B] =
       mset [selected_columns event_B, selected_columns event_A]"
    by (simp only: DetectResult.select_convs)
  from twice have ab: "conflict_text_AB =
       render_message show_int [selected_columns event_A, selected_columns event_B]"
    and ba: "conflict_text_BA =
       render_message show_int [selected_columns event_B, selected_columns event_A]"
    by (simp_all only: DetectResult.select_convs)
  show ?thesis
    using first_check_AB second_check_AB same ab ba by (intro conjI)
qed

text \<open>
  Claim C9, as stated, fails for the rendered message. The storage holds A and B and is not
  changed; it returns them in one order at the first read and in the other order at the
  second, as a query without \<open>ORDER BY\<close> allows, and the two messages list the events in
  different orders.
\<close>

theorem row_order_counterexample:
  "events (snd (detectConflicts show_int (Date 1704103200000) (Date 1704110400000) None store_AB))
     = events store_AB
   \<and> map_sum id result_message
       (fst (detectConflicts show_int (Date 1704103200000) (Date 1704110400000) None store_AB))
     = Inr conflict_text_AB
   \<and> map_sum id result_message
       (fst (detectConflicts show_int (Date 1704103200000) (Date 1704110400000) None
          (snd (detectConflicts show_int (Date 1704103200000) (Date 1704110400000) None store_AB))))
     = Inr conflict_text_BA
   \<and> conflict_text_AB \<noteq> conflict_text_BA"
  by (simp add: first_check_AB second_check_AB del: One_nat_def)
     (simp add: store_AB_def conflict_text_AB_def conflict_text_BA_def dq_def)

text \<open>
  Claim C10. Whenever the Conflict Subroutine returns, through the node \<open>checkConflicts\<close>
  or through \<open>detectConflicts\<close>, the flag \<open>hasConflicts\<close> is true if and only if the
  returned sequence of conflicts is not empty.
\<close>

theorem hasConflicts_iff_nonempty:
  "(checkConflicts loc state db = (Inr state', db') \<longrightarrow>
      (hasConflicts state' \<longleftrightarrow> conflicts state' \<noteq> []))
   \<and> (detectConflicts loc start finish ex db = (Inr r, db') \<longrightarrow>
      (result_hasConflicts r \<longleftrightarrow> result_conflicts r \<noteq> []))"
  by (auto simp: detectConflicts_def conflictDetectionGraph_invoke_def
      dest!: checkConflicts_Inr split: prod.splits sum.splits)

text \<open>A check that returns one conflict sets the flag.\<close>

theorem hasConflicts_iff_nonempty_witness:
  "fst (detectConflicts show_int (Date 15) (Date 25) None store_Z) =
     Inr \<lparr>result_hasConflicts = True, result_conflicts = [selected_columns event_Z],
          result_message = render_message show_int [selected_columns event_Z]\<rparr>"
proof -
  have run: "detectConflicts show_int (Date 15) (Date 25) None store_Z =
     (Inr \<lparr>result_hasConflicts = True, result_conflicts = [selected_columns event_Z],
          result_message = render_message show_int [selected_columns event_Z]\<rparr>, store_Z)"
    by (simp add: detectConflicts_def conflictDetectionGraph_invoke_def checkConflicts_def
        conflictingEvents_def mapToDriverValue_def select_events_def
        store_Z_def and_conditions_def conditions_def gte_def lte_def event_Z_def)
  show ?thesis
    using hasConflicts_iff_nonempty [where loc = show_int and start = "Date 15" and finish = "Date 25"
        and ex = None and db = store_Z and db' = store_Z] run
    by simp
qed


section \<open>Properties of the agent graph\<close>

lemma run_calls_ToolNode:
  "\<exists>outputs. run_calls (ToolNode_call catalogue env) calls = Inr outputs
     \<and> length outputs = length calls
     \<and> (\<forall>m \<in> set outputs. role m = Tool \<and> tool_calls m = None)"
proof (induction calls)
  case Nil
  then show ?case by simp
next
  case (Cons call calls)
  have "\<exists>m. ToolNode_call catalogue env call = Inr m \<and> role m = Tool \<and> tool_calls m = None"
    by (simp add: ToolNode_call_def try_catch_def split: option.splits sum.splits)
  then obtain m where m: "ToolNode_call catalogue env call = Inr m" "role m = Tool" "tool_calls m = None"
    by blast
  with Cons show ?case by auto
qed

lemma ToolNode_Inr:
  assumes "ToolNode catalogue env state = Inr state'"
  shows "\<exists>m outputs. messages state \<noteq> [] \<and> m = last (messages state) \<and> role m = Assistant
     \<and> state' = state\<lparr>messages := messages state @ outputs\<rparr>
     \<and> length outputs = length (case tool_calls m of None \<Rightarrow> [] | Some calls \<Rightarrow> calls)
     \<and> (\<forall>r \<in> set outputs. role r = Tool \<and> tool_calls r = None)"
proof -
  let ?calls = "case tool_calls (last (messages state)) of None \<Rightarrow> [] | Some calls \<Rightarrow> calls"
  obtain outputs where out: "run_calls (ToolNode_call catalogue env) ?calls = Inr outputs"
    "length outputs = length ?calls" "\<forall>m \<in> set outputs. role m = Tool \<and> tool_calls m = None"
    using run_calls_ToolNode by blast
  from assms have ne: "messages state \<noteq> []" and r: "role (last (messages state)) = Assistant"
    by (auto simp: ToolNode_def Let_def split: list.splits if_splits)
  from assms ne r out(1) have "state' = state\<lparr>messages := messages state @ outputs\<rparr>"
    by (auto simp: ToolNode_def Let_def split: list.splits)
  with ne r out show ?thesis by blast
qed

lemma shouldCheckConflicts_last:
  "messages state \<noteq> [] \<Longrightarrow>
     shouldCheckConflicts state =
       (case tool_calls (last (messages state)) of
          None \<Rightarrow> ''continue''
        | Some calls \<Rightarrow>
            if list_ex (\<lambda>tc. call_name tc = ''check_event_conflicts'') calls
            then ''conflict_detector'' else ''continue'')"
  by (cases "messages state") (simp_all add: shouldCheckConflicts_def)

lemma shouldCheckConflicts_after_ToolNode:
  assumes "ToolNode catalogue env state = Inr state'"
  shows "shouldCheckConflicts state' = ''continue''"
proof -
  from ToolNode_Inr [OF assms] obtain outputs where
    ne: "messages state \<noteq> []" and
    st: "state' = state\<lparr>messages := messages state @ outputs\<rparr>" and
    len: "length outputs = length (case tool_calls (last (messages state)) of None \<Rightarrow> [] | Some calls \<Rightarrow> calls)" and
    out: "\<forall>r \<in> set outputs. role r = Tool \<and> tool_calls r = None"
    by blast
  show ?thesis
  proof (cases "outputs = []")
    case True
    with len have "tool_calls (last (messages state)) = None \<or> tool_calls (last (messages state)) = Some []"
      by (auto split: option.splits)
    with True ne st show ?thesis
      by (auto simp: shouldCheckConflicts_last)
  next
    case False
    then have "tool_calls (last (messages state @ outputs)) = None"
      using out by (simp add: last_append)
    with False st show ?thesis
      by (simp add: shouldCheckConflicts_last)
  qed
qed

lemma tools_routes_to_agent':
  assumes "step modelWithTools catalogue env loc db tools state = Inr (next, state')"
  shows "next = Node agent"
  using assms
  by (auto simp: step_def tools_edges_def dest!: shouldCheckConflicts_after_ToolNode
      split: sum.splits option.splits)

text \<open>
  Claim C2 does not hold of the code. After \<open>tools\<close> has run, the router
  \<open>shouldCheckConflicts\<close> reads the last message of the transcript, and that message is
  the tool result that the dispatch has just appended, which carries no tool calls. So the
  next state is \<open>agent\<close> after every run of \<open>tools\<close>, also when the dispatched calls
  contained \<open>check_event_conflicts\<close>, and \<open>conflict_detector\<close> is never entered.
\<close>

theorem tools_routes_to_agent:
  assumes "step modelWithTools catalogue env loc db tools state = Inr (next, state')"
  shows "next = Node agent"
  using assms by (rule tools_routes_to_agent')

lemma detect_scenario:
  "detectConflicts show_int (Date 1704105000000) (Date 1704108600000) None store_A =
     (Inr \<lparr>result_hasConflicts = True, result_conflicts = [selected_columns event_A],
            result_message = conflict_text_A\<rparr>, store_A)"
proof -
  have n1: "show_nat (Suc 0) = ''1''" by (simp add: show_nat.simps)
  have a: "show_int 1704103200000 = ''1704103200000''" by (simp add: show_int_def show_nat.simps)
  have b: "show_int 1704106800000 = ''1704106800000''" by (simp add: show_int_def show_nat.simps)
  have found: "conflictingEvents (Date 1704105000000) (Date 1704108600000) None store_A =
      (Inr [selected_columns event_A], store_A)"
    by (simp add: conflictingEvents_def mapToDriverValue_def select_events_def store_A_def
        and_conditions_def conditions_def gte_def lte_def event_A_def)
  have rendered: "render_message show_int [selected_columns event_A] = conflict_text_A"
    by (simp add: render_message_def conflict_line_def Let_def selected_columns_def event_A_def
        truthy_string_def conflict_text_A_def dq_def n1 a b)
  show ?thesis
    by (simp add: detectConflicts_def conflictDetectionGraph_invoke_def checkConflicts_def
        found rendered)
qed

lemma tools_scenario:
  "ToolNode [checkEventConflicts] (\<lambda>call. example_env) state_request =
     Inr (state_request\<lparr>messages := messages state_request @
            [\<lparr>role = Tool, content = conflict_text_A, tool_calls = None\<rparr>]\<rparr>)"
proof -
  have inv: "tool_invoke checkEventConflicts (call_args conflict_call) example_env = Inr conflict_text_A"
    by (simp add: tool_invoke_def checkEventConflicts_def matches_def field_ok_def
        conflict_call_def z_string_def z_number_optional_def checkEventConflicts_func_def
        try_catch_def example_env_def example_newDate_def detect_scenario)
  have call: "ToolNode_call [checkEventConflicts] (\<lambda>call. example_env) conflict_call =
      Inr \<lparr>role = Tool, content = conflict_text_A, tool_calls = None\<rparr>"
    unfolding ToolNode_call_def
    by (simp add: inv try_catch_def) (simp add: checkEventConflicts_def conflict_call_def)
  show ?thesis
    by (simp add: ToolNode_def state_request_def Let_def call)
qed

lemma step_tools_scenario:
  "step (\<lambda>transcript. Inl Thrown) [checkEventConflicts] (\<lambda>call. example_env) show_int store_A
        tools state_request =
      Inr (Node agent, state_request\<lparr>messages := messages state_request @
            [\<lparr>role = Tool, content = conflict_text_A, tool_calls = None\<rparr>]\<rparr>)"
  by (simp add: step_def tools_scenario)
     (simp add: shouldCheckConflicts_def tools_edges_def state_request_def)

text \<open>
  Scenario 5: the dispatched call is \<open>check_event_conflicts\<close>, the dispatch succeeds, and
  the next state is \<open>agent\<close>.
\<close>

theorem tools_routes_to_agent_witness:
  "list_ex (\<lambda>tc. call_name tc = ''check_event_conflicts'') [conflict_call]
   \<and> tool_calls (last (messages state_request)) = Some [conflict_call]
   \<and> step (\<lambda>transcript. Inl Thrown) [checkEventConflicts] (\<lambda>call. example_env) show_int store_A
        tools state_request =
      Inr (Node agent, state_request\<lparr>messages := messages state_request @
            [\<lparr>role = Tool, content = conflict_text_A, tool_calls = None\<rparr>]\<rparr>)"
proof -
  have run: "step (\<lambda>transcript. Inl Thrown) [checkEventConflicts] (\<lambda>call. example_env) show_int store_A
        tools state_request =
      Inr (Node agent, state_request\<lparr>messages := messages state_request @
            [\<lparr>role = Tool, content = conflict_text_A, tool_calls = None\<rparr>]\<rparr>)"
    by (rule step_tools_scenario)
  show ?thesis
    using tools_routes_to_agent [OF run] run
    by (simp add: state_request_def conflict_call_def)
qed

text \<open>
  Claim C3 does not hold of the code. No transition writes a request into
  \<open>pendingEventCheck\<close>: when no conflict check is pending before a transition, as at the
  start of every turn, none is pending after it. And when \<open>conflict_detector\<close> runs with
  no pending request, it stores no rendered text: \<open>conflictCheckResult\<close> is empty.
\<close>

theorem pending_never_populated:
  assumes "step modelWithTools catalogue env loc db n state = Inr (next, state')"
    and "pendingEventCheck state = None"
  shows "pendingEventCheck state' = None
       \<and> (n = conflict_detector \<longrightarrow> conflictCheckResult state' = None)"
proof (cases n)
  case agent
  with assms show ?thesis
    by (auto simp: step_def callModel_def split: sum.splits)
next
  case tools
  with assms obtain st where "ToolNode catalogue env state = Inr st" "state' = st"
    by (auto simp: step_def split: sum.splits option.splits)
  with assms(2) tools show ?thesis
    by (auto dest!: ToolNode_Inr)
next
  case conflict_detector
  with assms show ?thesis
    by (auto simp: step_def checkConflicts_agent_def split: sum.splits)
qed

text \<open>
  Scenario 5: after the dispatch of \<open>check_event_conflicts\<close> nothing is pending, and the
  conflict step, run on that state, leaves the result field empty.
\<close>

theorem pending_never_populated_witness:
  "pendingEventCheck state_request = None
   \<and> step (\<lambda>transcript. Inl Thrown) [checkEventConflicts] (\<lambda>call. example_env) show_int store_A
        tools state_request =
      Inr (Node agent, state_request\<lparr>messages := messages state_request @
            [\<lparr>role = Tool, content = conflict_text_A, tool_calls = None\<rparr>]\<rparr>)
   \<and> pendingEventCheck (state_request\<lparr>messages := messages state_request @
            [\<lparr>role = Tool, content = conflict_text_A, tool_calls = None\<rparr>]\<rparr>) = None
   \<and> step (\<lambda>transcript. Inl Thrown) [checkEventConflicts] (\<lambda>call. example_env) show_int store_A
        conflict_detector
        (state_request\<lparr>messages := messages state_request @
            [\<lparr>role = Tool, content = conflict_text_A, tool_calls = None\<rparr>]\<rparr>) =
      Inr (Node agent, state_request\<lparr>messages := messages state_request @
            [\<lparr>role = Tool, content = conflict_text_A, tool_calls = None\<rparr>]\<rparr>)"
proof -
  have p: "pendingEventCheck state_request = None" by (simp add: state_request_def)
  have run: "step (\<lambda>transcript. Inl Thrown) [checkEventConflicts] (\<lambda>call. example_env) show_int store_A
        tools state_request =
      Inr (Node agent, state_request\<lparr>messages := messages state_request @
            [\<lparr>role = Tool, content = conflict_text_A, tool_calls = None\<rparr>]\<rparr>)"
    by (rule step_tools_scenario)
  have det: "step (\<lambda>transcript. Inl Thrown) [checkEventConflicts] (\<lambda>call. example_env) show_int store_A
        conflict_detector
        (state_request\<lparr>messages := messages state_request @
            [\<lparr>role = Tool, content = conflict_text_A, tool_calls = None\<rparr>]\<rparr>) =
      Inr (Node agent, state_request\<lparr>messages := messages state_request @
            [\<lparr>role = Tool, content = conflict_text_A, tool_calls = None\<rparr>]\<rparr>)"
    by (simp add: step_def checkConflicts_agent_def state_request_def)
  show ?thesis
    using pending_never_populated [OF run p] p run det by simp
qed

lemma shouldContinue_last:
  "messages state \<noteq> [] \<Longrightarrow>
     shouldContinue state =
       (case tool_calls (last (messages state)) of
          None \<Rightarrow> END
        | Some calls \<Rightarrow> if calls = [] then END else Node tools)"
  by (cases "messages state") (auto simp: shouldContinue_def split: option.splits)

text \<open>
  Claim C5. A transition from \<open>agent\<close> appends the message that the reasoning service
  produced; it ends the run exactly when that message has no tool calls, and leads to
  \<open>tools\<close> otherwise. A transition from \<open>tools\<close> or from \<open>conflict_detector\<close> never
  ends the run.
\<close>

theorem terminal_iff_no_tool_calls:
  assumes "step modelWithTools catalogue env loc db n state = Inr (next, state')"
  shows "(n = agent \<longrightarrow>
            (\<exists>response. modelWithTools (messages state) = Inr response
               \<and> state' = state\<lparr>messages := messages state @ [response]\<rparr>
               \<and> (next = END \<longleftrightarrow> tool_calls response = None \<or> tool_calls response = Some [])
               \<and> (next \<noteq> END \<longrightarrow> next = Node tools)))
       \<and> (n \<noteq> agent \<longrightarrow> next \<noteq> END)"
proof (cases n)
  case agent
  with assms obtain response where r: "modelWithTools (messages state) = Inr response"
    and st: "state' = state\<lparr>messages := messages state @ [response]\<rparr>"
    and nx: "next = shouldContinue state'"
    by (auto simp: step_def callModel_def split: sum.splits)
  have "next = (case tool_calls response of
          None \<Rightarrow> END
        | Some calls \<Rightarrow> if calls = [] then END else Node tools)"
    by (simp add: nx st shouldContinue_last)
  then have "(next = END \<longleftrightarrow> tool_calls response = None \<or> tool_calls response = Some [])
      \<and> (next \<noteq> END \<longrightarrow> next = Node tools)"
    by (auto split: option.splits if_splits)
  with agent r st show ?thesis by blast
next
  case tools
  with assms have "next = Node agent" by (auto dest: tools_routes_to_agent')
  with tools show ?thesis by simp
next
  case conflict_detector
  with assms show ?thesis by (auto simp: step_def split: sum.splits)
qed

text \<open>
  The reasoning service answers the tool result with a reply without tool calls, and the
  run ends.
\<close>

theorem terminal_iff_no_tool_calls_witness:
  "step (\<lambda>transcript. Inr \<lparr>role = Assistant, content = ''It is taken.'', tool_calls = Some []\<rparr>)
        [checkEventConflicts] (\<lambda>call. example_env) show_int store_A agent
        (state_request\<lparr>messages := messages state_request @
            [\<lparr>role = Tool, content = conflict_text_A, tool_calls = None\<rparr>]\<rparr>) =
     Inr (END, state_request\<lparr>messages := messages state_request @
            [\<lparr>role = Tool, content = conflict_text_A, tool_calls = None\<rparr>,
             \<lparr>role = Assistant, content = ''It is taken.'', tool_calls = Some []\<rparr>]\<rparr>)"
proof -
  have run: "step (\<lambda>transcript. Inr \<lparr>role = Assistant, content = ''It is taken.'', tool_calls = Some []\<rparr>)
        [checkEventConflicts] (\<lambda>call. example_env) show_int store_A agent
        (state_request\<lparr>messages := messages state_request @
            [\<lparr>role = Tool, content = conflict_text_A, tool_calls = None\<rparr>]\<rparr>) =
     Inr (END, state_request\<lparr>messages := messages state_request @
            [\<lparr>role = Tool, content = conflict_text_A, tool_calls = None\<rparr>,
             \<lparr>role = Assistant, content = ''It is taken.'', tool_calls = Some []\<rparr>]\<rparr>)"
    by (simp add: step_def callModel_def shouldContinue_def state_request_def)
  show ?thesis
    using terminal_iff_no_tool_calls [OF run] run by simp
qed

lemma checkConflicts_agent_pending:
  assumes "pendingEventCheck state = Some \<lparr>startTime = a, endTime = b, excludeEventId = ex\<rparr>"
  shows "fst (checkConflicts_agent loc state db) =
     (case fst (detectConflicts loc a b ex db) of
        Inl err \<Rightarrow> Inl err
      | Inr result \<Rightarrow> Inr (state\<lparr>conflictCheckResult := Some (result_message result),
                                 pendingEventCheck := None\<rparr>))"
  using assms
  by (auto simp: checkConflicts_agent_def detectConflicts_def split: prod.splits sum.splits)

lemma checkEventConflicts_invoke:
  assumes "args ''startTime'' = Some (JStr a)" and "args ''endTime'' = Some (JStr b)"
    and "args ''excludeEventId'' = map_option JNum ex"
  shows "tool_invoke checkEventConflicts args env = checkEventConflicts_func env a b ex"
proof -
  have m: "matches (tool_schema checkEventConflicts) args"
    using assms by (cases ex) (simp_all add: matches_def field_ok_def checkEventConflicts_def)
  have z: "z_number_optional args ''excludeEventId'' = Inr ex"
    using assms(3) by (cases ex) (simp_all add: z_number_optional_def)
  show ?thesis
    using m z assms(1,2) by (simp add: tool_invoke_def) (simp add: checkEventConflicts_def z_string_def)
qed

text \<open>
  Were a request pending, the step \<open>conflict_detector\<close> and the tool would run the same
  check on it: the same message when the check returns; when it fails, the tool returns the
  text of the failure and the step propagates it.
\<close>

lemma same_check_on_pending_request:
  assumes "args ''startTime'' = Some (JStr a)" and "args ''endTime'' = Some (JStr b)"
    and "args ''excludeEventId'' = map_option JNum ex"
    and "pendingEventCheck state =
           Some \<lparr>startTime = env_newDate env a, endTime = env_newDate env b, excludeEventId = ex\<rparr>"
  shows "case fst (detectConflicts (env_toLocaleString env) (env_newDate env a) (env_newDate env b)
                     ex (env_db env)) of
           Inr result \<Rightarrow>
             tool_invoke checkEventConflicts args env = Inr (result_message result)
             \<and> fst (checkConflicts_agent (env_toLocaleString env) state (env_db env)) =
                 Inr (state\<lparr>conflictCheckResult := Some (result_message result),
                            pendingEventCheck := None\<rparr>)
         | Inl err \<Rightarrow>
             tool_invoke checkEventConflicts args env =
                 Inr (''Error checking conflicts: '' @ error_message err)
             \<and> fst (checkConflicts_agent (env_toLocaleString env) state (env_db env)) = Inl err"
  by (simp add: checkEventConflicts_invoke [OF assms(1,2,3)] checkConflicts_agent_pending [OF assms(4)]
      checkEventConflicts_func_def try_catch_def split: sum.splits)


section \<open>Properties of the tool catalogue\<close>

lemma try_catch_text:
  "\<exists>text. try_catch body (\<lambda>error. Inr (handler error)) = Inr text"
  by (cases body) (simp_all add: try_catch_def)

lemma matches_number:
  assumes "matches schema args" and "(name, ZNumber, False) \<in> set schema"
  shows "\<exists>n. z_number args name = Inr n"
proof -
  from assms have "field_ok args (name, ZNumber, False)"
    by (simp add: matches_def list_all_iff)
  then obtain v where v: "args name = Some v" "has_type ZNumber v"
    by (auto simp: field_ok_def split: option.splits)
  then show ?thesis by (cases v) (simp_all add: z_number_def)
qed

lemma matches_string:
  assumes "matches schema args" and "(name, ZString, False) \<in> set schema"
  shows "\<exists>s. z_string args name = Inr s"
proof -
  from assms have "field_ok args (name, ZString, False)"
    by (simp add: matches_def list_all_iff)
  then obtain v where v: "args name = Some v" "has_type ZString v"
    by (auto simp: field_ok_def split: option.splits)
  then show ?thesis by (cases v) (simp_all add: z_string_def)
qed

lemma matches_number_optional:
  assumes "matches schema args" and "(name, ZNumber, True) \<in> set schema"
  shows "\<exists>n. z_number_optional args name = Inr n"
proof -
  from assms have ok: "field_ok args (name, ZNumber, True)"
    by (simp add: matches_def list_all_iff)
  show ?thesis
  proof (cases "args name")
    case None
    then show ?thesis by (simp add: z_number_optional_def)
  next
    case (Some v)
    with ok have "has_type ZNumber v" by (simp add: field_ok_def)
    with Some show ?thesis by (cases v) (simp_all add: z_number_optional_def)
  qed
qed

lemma checkEventConflicts_text:
  "matches (tool_schema checkEventConflicts) args \<Longrightarrow>
     \<exists>text. tool_func checkEventConflicts args env = Inr text"
proof -
  assume m: "matches (tool_schema checkEventConflicts) args"
  obtain a where a: "z_string args ''startTime'' = Inr a"
    using matches_string [OF m, of "''startTime''"] by (auto simp: checkEventConflicts_def)
  obtain b where b: "z_string args ''endTime'' = Inr b"
    using matches_string [OF m, of "''endTime''"] by (auto simp: checkEventConflicts_def)
  obtain x where x: "z_number_optional args ''excludeEventId'' = Inr x"
    using matches_number_optional [OF m, of "''excludeEventId''"] by (auto simp: checkEventConflicts_def)
  show ?thesis
    by (simp add: checkEventConflicts_def a b x checkEventConflicts_func_def try_catch_text)
qed

lemma createEventType_text: "\<exists>text. tool_func createEventType args env = Inr text"
  by (simp add: createEventType_def createEventType_func_def try_catch_text)

lemma listEventTypes_text: "\<exists>text. tool_func listEventTypes args env = Inr text"
  by (simp add: listEventTypes_def listEventTypes_func_def try_catch_text)

lemma createEvent_text: "\<exists>text. tool_func createEvent args env = Inr text"
  by (simp add: createEvent_def createEvent_func_def try_catch_text)

lemma getEvent_text: "\<exists>text. tool_func getEvent args env = Inr text"
  by (simp add: getEvent_def getEvent_func_def try_catch_text)

lemma listEvents_text: "\<exists>text. tool_func listEvents args env = Inr text"
  by (simp add: listEvents_def listEvents_func_def try_catch_text)

lemma updateEvent_text: "\<exists>text. tool_func updateEvent args env = Inr text"
  by (simp add: updateEvent_def updateEvent_func_def try_catch_text)

lemma deleteEvent_text:
  "matches (tool_schema deleteEvent) args \<Longrightarrow> \<exists>text. tool_func deleteEvent args env = Inr text"
proof -
  assume m: "matches (tool_schema deleteEvent) args"
  obtain n where n: "z_number args ''eventId'' = Inr n"
    using matches_number [OF m, of "''eventId''"] by (auto simp: deleteEvent_def)
  show ?thesis
    by (simp add: deleteEvent_def n deleteEvent_func_def try_catch_text)
qed

lemma addAttendee_text:
  "matches (tool_schema addAttendee) args \<Longrightarrow> \<exists>text. tool_func addAttendee args env = Inr text"
proof -
  assume m: "matches (tool_schema addAttendee) args"
  obtain n where n: "z_number args ''eventId'' = Inr n"
    using matches_number [OF m, of "''eventId''"] by (auto simp: addAttendee_def)
  show ?thesis
    by (simp add: addAttendee_def n addAttendee_func_def try_catch_text)
qed

lemma updateAttendeeStatus_text: "\<exists>text. tool_func updateAttendeeStatus args env = Inr text"
  by (simp add: updateAttendeeStatus_def updateAttendeeStatus_func_def try_catch_text)

lemma removeAttendee_text:
  "matches (tool_schema removeAttendee) args \<Longrightarrow> \<exists>text. tool_func removeAttendee args env = Inr text"
proof -
  assume m: "matches (tool_schema removeAttendee) args"
  obtain n where n: "z_number args ''attendeeId'' = Inr n"
    using matches_number [OF m, of "''attendeeId''"] by (auto simp: removeAttendee_def)
  show ?thesis
    by (simp add: removeAttendee_def n removeAttendee_func_def try_catch_text)
qed

lemma listEventAttendees_text: "\<exists>text. tool_func listEventAttendees args env = Inr text"
  by (simp add: listEventAttendees_def listEventAttendees_func_def try_catch_text)

lemma createReminder_text:
  "matches (tool_schema createReminder) args \<Longrightarrow> \<exists>text. tool_func createReminder args env = Inr text"
proof -
  assume m: "matches (tool_schema createReminder) args"
  obtain n where n: "z_number args ''eventId'' = Inr n"
    using matches_number [OF m, of "''eventId''"] by (auto simp: createReminder_def)
  show ?thesis
    by (simp add: createReminder_def n createReminder_func_def try_catch_text)
qed

lemma listReminders_text: "\<exists>text. tool_func listReminders args env = Inr text"
  by (simp add: listReminders_def listReminders_func_def try_catch_text)

lemma markReminderSent_text:
  "matches (tool_schema markReminderSent) args \<Longrightarrow> \<exists>text. tool_func markReminderSent args env = Inr text"
proof -
  assume m: "matches (tool_schema markReminderSent) args"
  obtain n where n: "z_number args ''reminderId'' = Inr n"
    using matches_number [OF m, of "''reminderId''"] by (auto simp: markReminderSent_def)
  show ?thesis
    by (simp add: markReminderSent_def n markReminderSent_func_def try_catch_text)
qed

lemma allTools_text:
  assumes "t \<in> set allTools" and "matches (tool_schema t) args"
  shows "\<exists>text. tool_func t args env = Inr text"
proof -
  from assms(1) consider
    "t = checkEventConflicts" | "t = createEventType" | "t = listEventTypes" | "t = createEvent"
    | "t = getEvent" | "t = listEvents" | "t = updateEvent" | "t = deleteEvent"
    | "t = addAttendee" | "t = updateAttendeeStatus" | "t = removeAttendee"
    | "t = listEventAttendees" | "t = createReminder" | "t = listReminders"
    | "t = markReminderSent"
    unfolding allTools_def by auto
  then show ?thesis
  proof cases
    case 1 with assms(2) show ?thesis by (simp add: checkEventConflicts_text)
  next
    case 2 then show ?thesis by (simp add: createEventType_text)
  next
    case 3 then show ?thesis by (simp add: listEventTypes_text)
  next
    case 4 then show ?thesis by (simp add: createEvent_text)
  next
    case 5 then show ?thesis by (simp add: getEvent_text)
  next
    case 6 then show ?thesis by (simp add: listEvents_text)
  next
    case 7 then show ?thesis by (simp add: updateEvent_text)
  next
    case 8 with assms(2) show ?thesis by (simp add: deleteEvent_text)
  next
    case 9 with assms(2) show ?thesis by (simp add: addAttendee_text)
  next
    case 10 then show ?thesis by (simp add: updateAttendeeStatus_text)
  next
    case 11 with assms(2) show ?thesis by (simp add: removeAttendee_text)
  next
    case 12 then show ?thesis by (simp add: listEventAttendees_text)
  next
    case 13 with assms(2) show ?thesis by (simp add: createReminder_text)
  next
    case 14 then show ?thesis by (simp add: listReminders_text)
  next
    case 15 with assms(2) show ?thesis by (simp add: markReminderSent_text)
  qed
qed

lemma detectConflicts_refused:
  assumes "reads db = Fails err # rest"
  shows "fst (detectConflicts loc a b ex db) = Inl err
       \<or> fst (detectConflicts loc a b ex db) = Inl (Error ''Invalid time value'')"
  using assms
  by (auto simp: detectConflicts_def conflictDetectionGraph_invoke_def checkConflicts_def
      conflictingEvents_def mapToDriverValue_def select_events_def split: date.splits)

lemma checkEventConflicts_refused:
  assumes "storage_refuses env err" and m: "matches (tool_schema checkEventConflicts) args"
  shows "tool_invoke checkEventConflicts args env =
           Inr (''Error checking conflicts: '' @ error_message err)
       \<or> tool_invoke checkEventConflicts args env =
           Inr (''Error checking conflicts: '' @ ''Invalid time value'')"
proof -
  obtain a where a: "z_string args ''startTime'' = Inr a"
    using matches_string [OF m, of "''startTime''"] by (auto simp: checkEventConflicts_def)
  obtain b where b: "z_string args ''endTime'' = Inr b"
    using matches_string [OF m, of "''endTime''"] by (auto simp: checkEventConflicts_def)
  obtain x where x: "z_number_optional args ''excludeEventId'' = Inr x"
    using matches_number_optional [OF m, of "''excludeEventId''"] by (auto simp: checkEventConflicts_def)
  obtain rest where f: "reads (env_db env) = Fails err # rest"
    using assms(1) by (auto simp: storage_refuses_def split: list.splits read.splits)
  have inv: "tool_invoke checkEventConflicts args env = checkEventConflicts_func env a b x"
    using m by (simp add: tool_invoke_def) (simp add: checkEventConflicts_def a b x)
  show ?thesis
    using detectConflicts_refused [OF f, of "env_toLocaleString env" "env_newDate env a"
        "env_newDate env b" x]
    by (auto simp: inv checkEventConflicts_func_def try_catch_def error_message_def)
qed

lemma createEventType_refused:
  "storage_refuses env err \<Longrightarrow> matches (tool_schema createEventType) args \<Longrightarrow>
     tool_invoke createEventType args env =
       Inr (''Error creating event type: '' @ error_message err)"
  by (simp add: tool_invoke_def)
     (simp add: createEventType_def createEventType_func_def try_catch_def storage_refuses_def)

lemma listEventTypes_refused:
  "storage_refuses env err \<Longrightarrow> matches (tool_schema listEventTypes) args \<Longrightarrow>
     tool_invoke listEventTypes args env =
       Inr (''Error listing event types: '' @ error_message err)"
  by (simp add: tool_invoke_def)
     (simp add: listEventTypes_def listEventTypes_func_def try_catch_def storage_refuses_def)

lemma createEvent_refused:
  "storage_refuses env err \<Longrightarrow> matches (tool_schema createEvent) args \<Longrightarrow>
     tool_invoke createEvent args env = Inr (''Error creating event: '' @ error_message err)"
  by (simp add: tool_invoke_def)
     (simp add: createEvent_def createEvent_func_def try_catch_def storage_refuses_def)

lemma getEvent_refused:
  "storage_refuses env err \<Longrightarrow> matches (tool_schema getEvent) args \<Longrightarrow>
     tool_invoke getEvent args env = Inr (''Error getting event: '' @ error_message err)"
  by (simp add: tool_invoke_def)
     (simp add: getEvent_def getEvent_func_def try_catch_def storage_refuses_def)

lemma listEvents_refused:
  "storage_refuses env err \<Longrightarrow> matches (tool_schema listEvents) args \<Longrightarrow>
     tool_invoke listEvents args env = Inr (''Error listing events: '' @ error_message err)"
  by (simp add: tool_invoke_def)
     (simp add: listEvents_def listEvents_func_def try_catch_def storage_refuses_def)

lemma updateEvent_refused:
  "storage_refuses env err \<Longrightarrow> matches (tool_schema updateEvent) args \<Longrightarrow>
     tool_invoke updateEvent args env = Inr (''Error updating event: '' @ error_message err)"
  by (simp add: tool_invoke_def)
     (simp add: updateEvent_def updateEvent_func_def try_catch_def storage_refuses_def)

lemma deleteEvent_refused:
  assumes "storage_refuses env err" and m: "matches (tool_schema deleteEvent) args"
  shows "tool_invoke deleteEvent args env = Inr (''Error deleting event: '' @ error_message err)"
proof -
  obtain n where n: "z_number args ''eventId'' = Inr n"
    using matches_number [OF m, of "''eventId''"] by (auto simp: deleteEvent_def)
  show ?thesis
    using assms by (simp add: tool_invoke_def)
      (simp add: deleteEvent_def n deleteEvent_func_def try_catch_def storage_refuses_def)
qed

lemma addAttendee_refused:
  assumes "storage_refuses env err" and m: "matches (tool_schema addAttendee) args"
  shows "tool_invoke addAttendee args env = Inr (''Error adding attendee: '' @ error_message err)"
proof -
  obtain n where n: "z_number args ''eventId'' = Inr n"
    using matches_number [OF m, of "''eventId''"] by (auto simp: addAttendee_def)
  show ?thesis
    using assms by (simp add: tool_invoke_def)
      (simp add: addAttendee_def n addAttendee_func_def try_catch_def storage_refuses_def)
qed

lemma updateAttendeeStatus_refused:
  "storage_refuses env err \<Longrightarrow> matches (tool_schema updateAttendeeStatus) args \<Longrightarrow>
     tool_invoke updateAttendeeStatus args env =
       Inr (''Error updating attendee status: '' @ error_message err)"
  by (simp add: tool_invoke_def)
     (simp add: updateAttendeeStatus_def updateAttendeeStatus_func_def try_catch_def
        storage_refuses_def)

lemma removeAttendee_refused:
  assumes "storage_refuses env err" and m: "matches (tool_schema removeAttendee) args"
  shows "tool_invoke removeAttendee args env =
           Inr (''Error removing attendee: '' @ error_message err)"
proof -
  obtain n where n: "z_number args ''attendeeId'' = Inr n"
    using matches_number [OF m, of "''attendeeId''"] by (auto simp: removeAttendee_def)
  show ?thesis
    using assms by (simp add: tool_invoke_def)
      (simp add: removeAttendee_def n removeAttendee_func_def try_catch_def storage_refuses_def)
qed

lemma listEventAttendees_refused:
  "storage_refuses env err \<Longrightarrow> matches (tool_schema listEventAttendees) args \<Longrightarrow>
     tool_invoke listEventAttendees args env =
       Inr (''Error listing attendees: '' @ error_message err)"
  by (simp add: tool_invoke_def)
     (simp add: listEventAttendees_def listEventAttendees_func_def try_catch_def
        storage_refuses_def)

lemma createReminder_refused:
  assumes "storage_refuses env err" and m: "matches (tool_schema createReminder) args"
  shows "tool_invoke createReminder args env =
           Inr (''Error creating reminder: '' @ error_message err)"
proof -
  obtain n where n: "z_number args ''eventId'' = Inr n"
    using matches_number [OF m, of "''eventId''"] by (auto simp: createReminder_def)
  show ?thesis
    using assms by (simp add: tool_invoke_def)
      (simp add: createReminder_def n createReminder_func_def try_catch_def storage_refuses_def)
qed

lemma listReminders_refused:
  "storage_refuses env err \<Longrightarrow> matches (tool_schema listReminders) args \<Longrightarrow>
     tool_invoke listReminders args env =
       Inr (''Error listing reminders: '' @ error_message err)"
  by (simp add: tool_invoke_def)
     (simp add: listReminders_def listReminders_func_def try_catch_def storage_refuses_def)

lemma markReminderSent_refused:
  assumes "storage_refuses env err" and m: "matches (tool_schema markReminderSent) args"
  shows "tool_invoke markReminderSent args env =
           Inr (''Error marking reminder as sent: '' @ error_message err)"
proof -
  obtain n where n: "z_number args ''reminderId'' = Inr n"
    using matches_number [OF m, of "''reminderId''"] by (auto simp: markReminderSent_def)
  show ?thesis
    using assms by (simp add: tool_invoke_def)
      (simp add: markReminderSent_def n markReminderSent_func_def try_catch_def
        storage_refuses_def)
qed

lemma allTools_refused:
  assumes "t \<in> set allTools"
  shows "\<exists>prefix. \<forall>args env err.
           storage_refuses env err \<and> matches (tool_schema t) args \<longrightarrow>
             tool_invoke t args env = Inr (prefix @ error_message err)
             \<or> tool_invoke t args env = Inr (prefix @ ''Invalid time value'')"
proof -
  from assms consider
    "t = checkEventConflicts" | "t = createEventType" | "t = listEventTypes" | "t = createEvent"
    | "t = getEvent" | "t = listEvents" | "t = updateEvent" | "t = deleteEvent"
    | "t = addAttendee" | "t = updateAttendeeStatus" | "t = removeAttendee"
    | "t = listEventAttendees" | "t = createReminder" | "t = listReminders"
    | "t = markReminderSent"
    unfolding allTools_def by auto
  then show ?thesis
  proof cases
    case 1 then show ?thesis using checkEventConflicts_refused by blast
  next
    case 2 then show ?thesis using createEventType_refused by blast
  next
    case 3 then show ?thesis using listEventTypes_refused by blast
  next
    case 4 then show ?thesis using createEvent_refused by blast
  next
    case 5 then show ?thesis using getEvent_refused by blast
  next
    case 6 then show ?thesis using listEvents_refused by blast
  next
    case 7 then show ?thesis using updateEvent_refused by blast
  next
    case 8 then show ?thesis using deleteEvent_refused by blast
  next
    case 9 then show ?thesis using addAttendee_refused by blast
  next
    case 10 then show ?thesis using updateAttendeeStatus_refused by blast
  next
    case 11 then show ?thesis using removeAttendee_refused by blast
  next
    case 12 then show ?thesis using listEventAttendees_refused by blast
  next
    case 13 then show ?thesis using createReminder_refused by blast
  next
    case 14 then show ?thesis using listReminders_refused by blast
  next
    case 15 then show ?thesis using markReminderSent_refused by blast
  qed
qed

lemma ToolNode_call_message:
  "\<exists>text. ToolNode_call catalogue envs call = Inr \<lparr>role = Tool, content = text, tool_calls = None\<rparr>"
  by (simp add: ToolNode_call_def try_catch_def split: option.splits sum.splits)

lemma run_calls_total:
  assumes "\<And>call. \<exists>m. f call = Inr m"
  shows "\<exists>ms. run_calls f calls = Inr ms"
proof (induction calls)
  case Nil
  then show ?case by simp
next
  case (Cons call calls)
  from assms obtain m where "f call = Inr m" by blast
  with Cons show ?case by auto
qed

lemma ToolNode_total:
  assumes "messages state \<noteq> []" and "role (last (messages state)) = Assistant"
  shows "\<exists>state'. ToolNode catalogue envs state = Inr state'"
proof -
  have "\<exists>m. ToolNode_call catalogue envs call = Inr m" for call
    using ToolNode_call_message [of catalogue envs call] by blast
  then obtain ms where "run_calls (ToolNode_call catalogue envs)
      (case tool_calls (last (messages state)) of None \<Rightarrow> [] | Some calls \<Rightarrow> calls) = Inr ms"
    using run_calls_total by blast
  with assms show ?thesis
    by (cases "messages state") (simp_all add: ToolNode_def Let_def)
qed

text \<open>
  Claim C8. Every tool of the catalogue, on every input of its schema and whatever the
  storage answers, returns a text and throws nothing; when the storage refuses its queries
  with an error, the text is the tool's own error prefix followed by the message of the
  error that was thrown. At the Tool Dispatch boundary every call, also a call of an unknown
  tool or with an input that does not match the schema, gives a tool-result message, and
  the dispatch of the calls of an assistant message always returns a state: a failing tool
  call does not end the turn.
\<close>

theorem tool_failures_are_caught:
  "(t \<in> set allTools \<longrightarrow>
      (\<exists>prefix. \<forall>args env.
         matches (tool_schema t) args \<longrightarrow>
           (\<exists>text. tool_invoke t args env = Inr text)
           \<and> (\<forall>err. storage_refuses env err \<longrightarrow>
                 tool_invoke t args env = Inr (prefix @ error_message err)
                 \<or> tool_invoke t args env = Inr (prefix @ ''Invalid time value''))))
   \<and> (\<exists>text. ToolNode_call allTools envs call =
                Inr \<lparr>role = Tool, content = text, tool_calls = None\<rparr>)
   \<and> (messages state \<noteq> [] \<and> role (last (messages state)) = Assistant \<longrightarrow>
      (\<exists>state'. ToolNode allTools envs state = Inr state'))"
proof -
  have returns: "\<exists>text. tool_invoke t args env = Inr text"
    if "t \<in> set allTools" and "matches (tool_schema t) args" for args env
    using allTools_text [OF that] that(2) by (simp add: tool_invoke_def)
  have boundary: "\<exists>prefix. \<forall>args env.
         matches (tool_schema t) args \<longrightarrow>
           (\<exists>text. tool_invoke t args env = Inr text)
           \<and> (\<forall>err. storage_refuses env err \<longrightarrow>
                 tool_invoke t args env = Inr (prefix @ error_message err)
                 \<or> tool_invoke t args env = Inr (prefix @ ''Invalid time value''))"
    if t: "t \<in> set allTools"
  proof -
    from allTools_refused [OF t] obtain prefix where p: "\<forall>args env err.
           storage_refuses env err \<and> matches (tool_schema t) args \<longrightarrow>
             tool_invoke t args env = Inr (prefix @ error_message err)
             \<or> tool_invoke t args env = Inr (prefix @ ''Invalid time value'')"
      by blast
    show ?thesis
      by (rule exI [of _ prefix]) (use p returns [OF t] in blast)
  qed
  show ?thesis
    using boundary ToolNode_call_message [of allTools envs call]
      ToolNode_total [of state allTools envs]
    by blast
qed

lemma failing_invoke:
  "tool_invoke checkEventConflicts (call_args conflict_call) failing_env =
     Inr ''Error checking conflicts: connection refused''"
proof -
  have d: "fst (detectConflicts show_int (Date 1704105000000) (Date 1704108600000) None
              \<lparr>events = [event_A], reads = [Fails (Error ''connection refused'')]\<rparr>) =
      Inl (Error ''connection refused'')"
    by (simp add: detectConflicts_def conflictDetectionGraph_invoke_def checkConflicts_def
        conflictingEvents_def mapToDriverValue_def select_events_def)
  show ?thesis
    by (simp add: tool_invoke_def checkEventConflicts_def matches_def field_ok_def
        conflict_call_def z_string_def z_number_optional_def checkEventConflicts_func_def
        try_catch_def failing_env_def example_newDate_def d error_message_def)
qed

lemma failing_call:
  "ToolNode_call allTools (\<lambda>call. failing_env) conflict_call =
     Inr \<lparr>role = Tool, content = ''Error checking conflicts: connection refused'',
          tool_calls = None\<rparr>"
proof -
  have f: "find (\<lambda>t. tool_name t = call_name conflict_call) allTools = Some checkEventConflicts"
    by (simp add: allTools_def checkEventConflicts_def conflict_call_def)
  show ?thesis
    by (simp add: ToolNode_call_def f failing_invoke try_catch_def)
qed

text \<open>
  The storage is down, the conflict check fails, and the dispatch appends the text of the
  failure as the tool result.
\<close>

theorem tool_failures_are_caught_witness:
  "checkEventConflicts \<in> set allTools
   \<and> matches (tool_schema checkEventConflicts) (call_args conflict_call)
   \<and> storage_refuses failing_env (Error ''connection refused'')
   \<and> tool_invoke checkEventConflicts (call_args conflict_call) failing_env =
       Inr ''Error checking conflicts: connection refused''
   \<and> ToolNode allTools (\<lambda>call. failing_env) state_request =
       Inr (state_request\<lparr>messages := messages state_request @
            [\<lparr>role = Tool, content = ''Error checking conflicts: connection refused'',
              tool_calls = None\<rparr>]\<rparr>)"
proof -
  have t: "checkEventConflicts \<in> set allTools" by (simp add: allTools_def)
  have m: "matches (tool_schema checkEventConflicts) (call_args conflict_call)"
    by (simp add: checkEventConflicts_def matches_def field_ok_def conflict_call_def)
  have r: "storage_refuses failing_env (Error ''connection refused'')"
    by (simp add: storage_refuses_def failing_env_def)
  have call: "ToolNode_call allTools (\<lambda>call. failing_env) conflict_call =
     Inr \<lparr>role = Tool, content = ''Error checking conflicts: connection refused'',
          tool_calls = None\<rparr>"
    by (rule failing_call)
  have inv: "tool_invoke checkEventConflicts (call_args conflict_call) failing_env =
       Inr ''Error checking conflicts: connection refused''"
    by (rule failing_invoke)
  have node: "ToolNode allTools (\<lambda>call. failing_env) state_request =
       Inr (state_request\<lparr>messages := messages state_request @
            [\<lparr>role = Tool, content = ''Error checking conflicts: connection refused'',
              tool_calls = None\<rparr>]\<rparr>)"
    by (simp add: ToolNode_def state_request_def Let_def call)
  show ?thesis
    using tool_failures_are_caught [of checkEventConflicts "\<lambda>call. failing_env" conflict_call
        state_request] t m r inv node
    by simp
qed

section \<open>The two paths of the conflict check\<close>






end
